theory Spec2Isabelle
  imports Complex_Main
begin

section \<open>Configuration\<close>

text \<open>
  The module-level constants of the script. Floating-point numbers are modelled by
  the real numbers: every array entry is a \<^typ>\<open>real\<close>, so rounding, overflow, NaN and
  infinities are outside the model.
\<close>

definition DOMAIN_SIZE :: real where
  "DOMAIN_SIZE = 1.0"

definition N_POINTS :: nat where
  "N_POINTS = 41"

definition N_TIME_STEPS :: nat where
  "N_TIME_STEPS = 100"

definition TIME_STEP_LENGTH :: real where
  "TIME_STEP_LENGTH = 0.1"

definition KINEMATIC_VISCOSITY :: real where
  "KINEMATIC_VISCOSITY = 0.0001"

definition TEMPERATURE_DIFFUSIVITY :: real where
  "TEMPERATURE_DIFFUSIVITY = 0.0001"

definition SMAGORINSKY_CONSTANT :: real where
  "SMAGORINSKY_CONSTANT = 0.1"

definition element_length :: real where
  "element_length = DOMAIN_SIZE / real (N_POINTS - 1)"

definition MAX_ITER_CG :: "nat option" where
  "MAX_ITER_CG = None"

section \<open>Arrays\<close>

text \<open>
  A two-dimensional array is a list of rows. A scalar field has real entries; a vector
  field (shape \<open>(n, m, 2)\<close> in the script) has a pair of reals at every grid point.
\<close>

type_synonym scalar_field = "real list list"
type_synonym vector_field = "(real \<times> real) list list"

definition has_shape :: "'a list list \<Rightarrow> nat \<Rightarrow> nat \<Rightarrow> bool" where
  "has_shape a n m \<longleftrightarrow> length a = n \<and> list_all (\<lambda>r. length r = m) a"

text \<open>Every entry of the array is \<open>c\<close>.\<close>

definition uniform :: "'a \<Rightarrow> 'a list list \<Rightarrow> bool" where
  "uniform c a \<longleftrightarrow> list_all (list_all (\<lambda>v. v = c)) a"

subsection \<open>Python slices\<close>

text \<open>
  A slice bound \<open>k\<close> on an axis of length \<open>n\<close>: a negative bound counts from the end, and
  the result is clamped into \<open>[0, n]\<close>.
\<close>

definition slice_bound :: "nat \<Rightarrow> int \<Rightarrow> nat" where
  "slice_bound n k = (if k < 0 then nat (max 0 (int n + k)) else min n (nat k))"

text \<open>\<open>xs[start:stop]\<close>; \<open>stop = None\<close> is the open slice \<open>xs[start:]\<close>.\<close>

definition slice :: "int \<Rightarrow> int option \<Rightarrow> 'a list \<Rightarrow> 'a list" where
  "slice start stop xs =
     (let n = length xs;
          lo = slice_bound n start;
          hi = (case stop of None \<Rightarrow> n | Some k \<Rightarrow> slice_bound n k)
      in take (hi - lo) (drop lo xs))"

text \<open>\<open>a[r0:r1, c0:c1]\<close>\<close>

definition slice2 :: "int \<Rightarrow> int option \<Rightarrow> int \<Rightarrow> int option \<Rightarrow> 'a list list \<Rightarrow> 'a list list" where
  "slice2 r0 r1 c0 c1 a = map (slice c0 c1) (slice r0 r1 a)"

text \<open>
  \<open>xs[start:stop] = vs\<close> for a block \<open>vs\<close> of the length of the slice (the only way the
  script assigns): the entries of the slice are replaced, the others kept.
\<close>

definition set_slice :: "int \<Rightarrow> int option \<Rightarrow> 'a list \<Rightarrow> 'a list \<Rightarrow> 'a list" where
  "set_slice start stop xs vs =
     (let n = length xs;
          lo = slice_bound n start;
          hi = (case stop of None \<Rightarrow> n | Some k \<Rightarrow> slice_bound n k)
      in take lo xs @ vs @ drop (max lo hi) xs)"

text \<open>\<open>a[r0:r1, c0:c1] = block\<close>\<close>

definition set_slice2 ::
  "int \<Rightarrow> int option \<Rightarrow> int \<Rightarrow> int option \<Rightarrow> 'a list list \<Rightarrow> 'a list list \<Rightarrow> 'a list list" where
  "set_slice2 r0 r1 c0 c1 a block =
     set_slice r0 r1 a (map2 (set_slice c0 c1) (slice r0 r1 a) block)"

subsection \<open>Elementwise arithmetic\<close>

text \<open>
  NumPy combines two arrays entry by entry and raises when their shapes differ. The
  script only ever combines arrays of one shape (every array of the time loop has the
  shape of the grid, which \<open>reshape\<close> enforces), and the operations below are meant for
  such arguments only.
\<close>

definition zeros_like :: "scalar_field \<Rightarrow> scalar_field" where
  "zeros_like a = map (map (\<lambda>_. 0)) a"

definition arr_add :: "scalar_field \<Rightarrow> scalar_field \<Rightarrow> scalar_field" where
  "arr_add a b = map2 (map2 (+)) a b"

definition arr_sub :: "scalar_field \<Rightarrow> scalar_field \<Rightarrow> scalar_field" where
  "arr_sub a b = map2 (map2 (-)) a b"

definition arr_scale :: "real \<Rightarrow> scalar_field \<Rightarrow> scalar_field" where
  "arr_scale c a = map (map (\<lambda>v. c * v)) a"

definition arr_div :: "scalar_field \<Rightarrow> real \<Rightarrow> scalar_field" where
  "arr_div a c = map (map (\<lambda>v. v / c)) a"

text \<open>\<open>v[..., 0]\<close> and \<open>v[..., 1]\<close>\<close>

definition comp0 :: "vector_field \<Rightarrow> scalar_field" where
  "comp0 v = map (map fst) v"

definition comp1 :: "vector_field \<Rightarrow> scalar_field" where
  "comp1 v = map (map snd) v"

text \<open>\<open>np.concatenate((a[..., np.newaxis], b[..., np.newaxis]), axis=-1)\<close>\<close>

definition stack :: "scalar_field \<Rightarrow> scalar_field \<Rightarrow> vector_field" where
  "stack a b = map2 zip a b"

section \<open>Differential operators\<close>

definition partial_derivative_x :: "scalar_field \<Rightarrow> scalar_field" where
  "partial_derivative_x field =
     set_slice2 1 (Some (- 1)) 1 (Some (- 1)) (zeros_like field)
       (arr_div
          (arr_sub (slice2 2 None 1 (Some (- 1)) field)
                   (slice2 0 (Some (- 2)) 1 (Some (- 1)) field))
          (2 * element_length))"

definition partial_derivative_y :: "scalar_field \<Rightarrow> scalar_field" where
  "partial_derivative_y field =
     set_slice2 1 (Some (- 1)) 1 (Some (- 1)) (zeros_like field)
       (arr_div
          (arr_sub (slice2 1 (Some (- 1)) 2 None field)
                   (slice2 1 (Some (- 1)) 0 (Some (- 2)) field))
          (2 * element_length))"

definition laplace :: "scalar_field \<Rightarrow> scalar_field" where
  "laplace field =
     set_slice2 1 (Some (- 1)) 1 (Some (- 1)) (zeros_like field)
       (arr_div
          (arr_add
             (arr_add
                (arr_sub
                   (arr_add (slice2 0 (Some (- 2)) 1 (Some (- 1)) field)
                            (slice2 1 (Some (- 1)) 0 (Some (- 2)) field))
                   (arr_scale 4 (slice2 1 (Some (- 1)) 1 (Some (- 1)) field)))
                (slice2 2 None 1 (Some (- 1)) field))
             (slice2 1 (Some (- 1)) 2 None field))
          (element_length ^ 2))"

definition divergence :: "vector_field \<Rightarrow> scalar_field" where
  "divergence vector_field =
     arr_add (partial_derivative_x (comp0 vector_field))
             (partial_derivative_y (comp1 vector_field))"

definition gradient :: "scalar_field \<Rightarrow> vector_field" where
  "gradient field = stack (partial_derivative_x field) (partial_derivative_y field)"

definition curl_2d :: "vector_field \<Rightarrow> scalar_field" where
  "curl_2d vector_field =
     arr_sub (partial_derivative_x (comp1 vector_field))
             (partial_derivative_y (comp0 vector_field))"

definition laplace_vector :: "vector_field \<Rightarrow> vector_field" where
  \<comment> \<open>\<open>laplace\<close> on an array of shape \<open>(n, m, 2)\<close>: the slices act on the two leading axes,
      so every component gets the scalar stencil\<close>
  "laplace_vector vector_field = stack (laplace (comp0 vector_field)) (laplace (comp1 vector_field))"

subsection \<open>Arithmetic on vector fields\<close>

definition vec_add :: "vector_field \<Rightarrow> vector_field \<Rightarrow> vector_field" where
  "vec_add a b = map2 (map2 (\<lambda>p q. (fst p + fst q, snd p + snd q))) a b"

definition vec_sub :: "vector_field \<Rightarrow> vector_field \<Rightarrow> vector_field" where
  "vec_sub a b = map2 (map2 (\<lambda>p q. (fst p - fst q, snd p - snd q))) a b"

definition vec_scale :: "real \<Rightarrow> vector_field \<Rightarrow> vector_field" where
  "vec_scale c a = map (map (\<lambda>p. (c * fst p, c * snd p))) a"

text \<open>\<open>s[..., np.newaxis] * v\<close>: the scalar at a grid point multiplies both components.\<close>

definition scale_by :: "scalar_field \<Rightarrow> vector_field \<Rightarrow> vector_field" where
  "scale_by s v = map2 (map2 (\<lambda>c p. (c * fst p, c * snd p))) s v"

text \<open>\<open>np.clip(v, lo, hi)\<close>\<close>

definition clip :: "vector_field \<Rightarrow> real \<Rightarrow> real \<Rightarrow> vector_field" where
  "clip v lo hi = map (map (\<lambda>p. (min (max (fst p) lo) hi, min (max (snd p) lo) hi))) v"

text \<open>\<open>a[mask] = c\<close> for a boolean mask of the shape of \<open>a\<close>\<close>

definition mask_assign :: "bool list list \<Rightarrow> 'a \<Rightarrow> 'a list list \<Rightarrow> 'a list list" where
  "mask_assign msk c a = map2 (map2 (\<lambda>b v. if b then c else v)) msk a"

section \<open>Grid, obstacle and forces\<close>

text \<open>\<open>np.linspace(start, stop, num)\<close>\<close>

definition linspace :: "real \<Rightarrow> real \<Rightarrow> nat \<Rightarrow> real list" where
  "linspace start stop num =
     map (\<lambda>k. real k * ((stop - start) / real (num - 1)) + start) [0..<num]"

text \<open>The script's \<open>x\<close>, \<open>y\<close>, \<open>X\<close> and \<open>Y\<close> (meshgrid with \<open>indexing="ij"\<close>).\<close>

definition grid_x :: "real list" where
  "grid_x = linspace 0.0 DOMAIN_SIZE N_POINTS"

definition grid_y :: "real list" where
  "grid_y = linspace 0.0 DOMAIN_SIZE N_POINTS"

definition mesh_X :: scalar_field where
  "mesh_X = map (\<lambda>xv. map (\<lambda>yv. xv) grid_y) grid_x"

definition mesh_Y :: scalar_field where
  "mesh_Y = map (\<lambda>xv. map (\<lambda>yv. yv) grid_y) grid_x"

definition obstacle_center :: "real \<times> real" where
  "obstacle_center = (0.5, 0.5)"

definition obstacle_radius :: real where
  "obstacle_radius = 0.1"

text \<open>
  The script builds its obstacle mask once, by the floating-point comparison
  \<open>(X - 0.5)**2 + (Y - 0.5)**2 < 0.1**2\<close>. Some grid nodes lie exactly on the circle
  (node \<open>(16, 20)\<close> is one), and there the outcome of the comparison is decided by
  rounding, which real numbers do not show. The mask is therefore an argument of the time
  loop: any boolean array of the shape of the grid, as the comparison always yields.
  \<open>exact_obstacle_mask\<close> is the comparison in exact arithmetic; it agrees with the
  script's mask at every node that is not on the circle.
\<close>

definition exact_obstacle_mask :: "bool list list" where
  "exact_obstacle_mask =
     map2 (map2 (\<lambda>xv yv. (xv - fst obstacle_center) ^ 2 + (yv - snd obstacle_center) ^ 2
                           < obstacle_radius ^ 2)) mesh_X mesh_Y"

definition coordinates :: vector_field where
  "coordinates = stack mesh_X mesh_Y"

definition forcing_function :: "real \<Rightarrow> real \<times> real \<Rightarrow> real \<times> real" where
  "forcing_function time point =
     (let time_decay = max (2.0 - 0.5 * time) 0.0;
          direction = (if fst point > 0.4 \<and> fst point < 0.6 \<and> snd point > 0.1 \<and> snd point < 0.3
                       then (0.0, 1.0) else (0.0, 0.0))
      in (time_decay * fst direction, time_decay * snd direction))"

definition forcing_function_vectorized :: "real \<Rightarrow> vector_field \<Rightarrow> vector_field" where
  "forcing_function_vectorized time coords = map (map (forcing_function time)) coords"

definition external_force :: "real \<Rightarrow> vector_field \<Rightarrow> vector_field" where
  "external_force time coords =
     (let force_y = - 0.1 * sin (2 * pi * time / 10);
          force_x = map (map (\<lambda>yv. 0.1 * sin (2 * pi * yv))) (comp1 coords)
      in map (map (\<lambda>fx. (fx, force_y))) force_x)"

definition temperature_source :: scalar_field where
  "temperature_source =
     map2 (map2 (\<lambda>xv yv. exp (- ((xv - 0.5) ^ 2 + (yv - 0.5) ^ 2) / 0.01))) mesh_X mesh_Y"

section \<open>Turbulence model\<close>

definition compute_strain_rate :: "vector_field \<Rightarrow> scalar_field" where
  "compute_strain_rate velocity_field =
     (let du_dx = partial_derivative_x (comp0 velocity_field);
          dv_dy = partial_derivative_y (comp1 velocity_field);
          du_dy = partial_derivative_y (comp0 velocity_field);
          dv_dx = partial_derivative_x (comp1 velocity_field);
          S11 = du_dx;
          S22 = dv_dy;
          S12 = arr_scale 0.5 (arr_add du_dy dv_dx)
      in map (map sqrt)
           (arr_scale 2
              (arr_add (arr_add (map (map (\<lambda>v. v ^ 2)) S11) (map (map (\<lambda>v. v ^ 2)) S22))
                       (arr_scale 2 (map (map (\<lambda>v. v ^ 2)) S12)))))"

definition compute_turbulent_viscosity :: "vector_field \<Rightarrow> scalar_field" where
  "compute_turbulent_viscosity velocity_field =
     arr_scale ((SMAGORINSKY_CONSTANT * element_length) ^ 2) (compute_strain_rate velocity_field)"

text \<open>
  \<open>effective_viscosity\<close> and one component of \<open>diffused\<close> inside
  \<open>diffusion_operator_turbulent\<close>, on the reshaped field.
\<close>

definition effective_viscosity :: "vector_field \<Rightarrow> scalar_field" where
  "effective_viscosity vector_field =
     map (map (\<lambda>v. KINEMATIC_VISCOSITY + v)) (compute_turbulent_viscosity vector_field)"

definition diffused_component :: "vector_field \<Rightarrow> scalar_field \<Rightarrow> scalar_field" where
  "diffused_component vector_field component =
     arr_sub component
       (arr_scale TIME_STEP_LENGTH
          (divergence (scale_by (effective_viscosity vector_field) (gradient component))))"

definition diffused_field :: "vector_field \<Rightarrow> vector_field" where
  "diffused_field vector_field =
     stack (diffused_component vector_field (comp0 vector_field))
           (diffused_component vector_field (comp1 vector_field))"

section \<open>Flattened arrays and errors\<close>

text \<open>
  The exceptions the script can raise: \<open>reshape\<close> on an array of the wrong size, the
  interpolator on arrays of the wrong shape or on a query outside the grid, and whatever
  the linear solver raises.
\<close>

datatype error =
    ValueError_cannot_reshape
  | ValueError_shape_mismatch
  | ValueError_out_of_bounds
  | SolverError

definition and_then :: "error + 'a \<Rightarrow> ('a \<Rightarrow> error + 'b) \<Rightarrow> error + 'b" where
  "and_then r f = (case r of Inl e \<Rightarrow> Inl e | Inr v \<Rightarrow> f v)"

definition scalar_dof :: nat where
  "scalar_dof = N_POINTS ^ 2"

definition vector_dof :: nat where
  "vector_dof = N_POINTS ^ 2 * 2"

definition flatten_scalar :: "scalar_field \<Rightarrow> real list" where
  "flatten_scalar a = concat a"

definition flatten_vector :: "vector_field \<Rightarrow> real list" where
  "flatten_vector a = concat (map (\<lambda>row. concat (map (\<lambda>p. [fst p, snd p]) row)) a)"

text \<open>\<open>flat.reshape(scalar_shape)\<close> and \<open>flat.reshape(vector_shape)\<close>, row-major.\<close>

definition reshape_scalar :: "real list \<Rightarrow> error + scalar_field" where
  "reshape_scalar flat =
     (if length flat = scalar_dof
      then Inr (map (\<lambda>i. map (\<lambda>j. flat ! (i * N_POINTS + j)) [0..<N_POINTS]) [0..<N_POINTS])
      else Inl ValueError_cannot_reshape)"

definition reshape_vector :: "real list \<Rightarrow> error + vector_field" where
  "reshape_vector flat =
     (if length flat = vector_dof
      then Inr (map (\<lambda>i. map (\<lambda>j. (flat ! ((i * N_POINTS + j) * 2),
                                      flat ! ((i * N_POINTS + j) * 2 + 1)))
                            [0..<N_POINTS]) [0..<N_POINTS])
      else Inl ValueError_cannot_reshape)"

section \<open>Linear operators handed to the solver\<close>

definition diffusion_operator_turbulent :: "real list \<Rightarrow> error + real list" where
  "diffusion_operator_turbulent vector_field_flattened =
     and_then (reshape_vector vector_field_flattened)
       (\<lambda>vector_field. Inr (flatten_vector (diffused_field vector_field)))"

definition diffusion_operator :: "real list \<Rightarrow> error + real list" where
  "diffusion_operator vector_field_flattened =
     and_then (reshape_vector vector_field_flattened)
       (\<lambda>vector_field. Inr (flatten_vector
          (vec_sub vector_field
             (vec_scale (KINEMATIC_VISCOSITY * TIME_STEP_LENGTH) (laplace_vector vector_field)))))"

definition poisson_operator :: "real list \<Rightarrow> error + real list" where
  "poisson_operator field_flattened =
     and_then (reshape_scalar field_flattened) (\<lambda>field. Inr (flatten_scalar (laplace field)))"

definition temperature_diffusion_operator :: "real list \<Rightarrow> error + real list" where
  "temperature_diffusion_operator temp_flattened =
     and_then (reshape_scalar temp_flattened)
       (\<lambda>temp. Inr (flatten_scalar
          (arr_sub temp (arr_scale (TEMPERATURE_DIFFUSIVITY * TIME_STEP_LENGTH) (laplace temp)))))"

text \<open>
  The conjugate-gradient solver \<open>splinalg.cg\<close> is library code: it is a parameter of the
  model. It gets the operator, the right-hand side and the iteration cap, and returns the
  iterate together with its status \<open>info\<close> (\<open>0\<close>: converged; positive: the cap was reached
  without convergence), or raises.
\<close>

type_synonym solver =
  "(real list \<Rightarrow> error + real list) \<Rightarrow> real list \<Rightarrow> nat option \<Rightarrow> error + (real list \<times> int)"

text \<open>\<open>splinalg.cg(A, b, maxiter)[0]\<close>: element \<open>0\<close> of the returned pair, the iterate.\<close>

definition cg_solution ::
  "solver \<Rightarrow> (real list \<Rightarrow> error + real list) \<Rightarrow> real list \<Rightarrow> nat option \<Rightarrow> error + real list" where
  "cg_solution cg A b maxiter = and_then (cg A b maxiter) (\<lambda>result. Inr (fst result))"

section \<open>Advection\<close>

text \<open>
  Modelled from the spec: the grid interpolation \<open>interpolate.interpn\<close> is library code;
  it is bilinear interpolation on the structured grid, with SciPy's defaults: the cell of a
  query is found by a left binary search clamped to the last cell, and a query outside the
  grid raises.
\<close>

definition find_indices :: "real list \<Rightarrow> real \<Rightarrow> nat \<times> real" where
  "find_indices grid q =
     (let i = min (length (filter (\<lambda>g. g < q) grid) - 1) (length grid - 2)
      in (i, (q - grid ! i) / (grid ! Suc i - grid ! i)))"

definition interp_linear :: "real list \<Rightarrow> real list \<Rightarrow> scalar_field \<Rightarrow> real \<times> real \<Rightarrow> real" where
  "interp_linear xs ys vals p =
     (let (i, s) = find_indices xs (fst p);
          (j, t) = find_indices ys (snd p)
      in (1 - s) * (1 - t) * vals ! i ! j + (1 - s) * t * vals ! i ! Suc j
         + s * (1 - t) * vals ! Suc i ! j + s * t * vals ! Suc i ! Suc j)"

definition interpn :: "real list \<times> real list \<Rightarrow> scalar_field \<Rightarrow> vector_field \<Rightarrow> error + scalar_field" where
  "interpn points vals xi =
     (let xs = fst points; ys = snd points
      in if \<not> has_shape vals (length xs) (length ys) then Inl ValueError_shape_mismatch
         else if \<not> list_all (list_all (\<lambda>p. hd xs \<le> fst p \<and> fst p \<le> last xs)) xi
           then Inl ValueError_out_of_bounds
         else if \<not> list_all (list_all (\<lambda>p. hd ys \<le> snd p \<and> snd p \<le> last ys)) xi
           then Inl ValueError_out_of_bounds
         else Inr (map (map (interp_linear xs ys vals)) xi))"

text \<open>On values of shape \<open>(n, m, 2)\<close> the interpolator treats the two components alike.\<close>

definition interpn_vector ::
  "real list \<times> real list \<Rightarrow> vector_field \<Rightarrow> vector_field \<Rightarrow> error + vector_field" where
  "interpn_vector points vals xi =
     and_then (interpn points (comp0 vals) xi)
       (\<lambda>a. and_then (interpn points (comp1 vals) xi) (\<lambda>b. Inr (stack a b)))"

definition backtraced_positions :: "vector_field \<Rightarrow> vector_field" where
  "backtraced_positions vector_field =
     clip (vec_sub coordinates (vec_scale TIME_STEP_LENGTH vector_field)) 0.0 DOMAIN_SIZE"

definition advect :: "scalar_field \<Rightarrow> vector_field \<Rightarrow> error + scalar_field" where
  "advect field vector_field =
     interpn (grid_x, grid_y) field (backtraced_positions vector_field)"

definition advect_vector :: "vector_field \<Rightarrow> vector_field \<Rightarrow> error + vector_field" where
  "advect_vector field vector_field =
     interpn_vector (grid_x, grid_y) field (backtraced_positions vector_field)"

section \<open>Time stepping\<close>

definition temperature_step ::
  "solver \<Rightarrow> scalar_field \<Rightarrow> vector_field \<Rightarrow> scalar_field \<Rightarrow> error + scalar_field" where
  "temperature_step cg temperature velocity_field source =
     and_then (advect temperature velocity_field) (\<lambda>temperature_advected.
     and_then (cg_solution cg temperature_diffusion_operator (flatten_scalar temperature_advected) None) (\<lambda>solved.
     and_then (reshape_scalar solved) (\<lambda>temperature_diffused.
     Inr (arr_add temperature_diffused (arr_scale TIME_STEP_LENGTH source)))))"

record state =
  velocities_prev :: vector_field
  temperature_prev :: scalar_field
  time_current :: real

definition initial_state :: state where
  "initial_state =
     \<lparr> velocities_prev = replicate N_POINTS (replicate N_POINTS (0, 0)),
       temperature_prev = replicate N_POINTS (replicate N_POINTS 0),
       time_current = 0.0 \<rparr>"

text \<open>Step (1) of the loop body: \<open>velocities_prev + TIME_STEP_LENGTH * (forces + external_forces)\<close>.\<close>

definition apply_forces :: "vector_field \<Rightarrow> vector_field \<Rightarrow> vector_field \<Rightarrow> vector_field" where
  "apply_forces velocities forces external_forces =
     vec_add velocities (vec_scale TIME_STEP_LENGTH (vec_add forces external_forces))"

text \<open>
  One pass through the body of the time loop (the plotting calls left out), with the
  solver and the obstacle mask as arguments.
\<close>

definition main_step :: "solver \<Rightarrow> bool list list \<Rightarrow> state \<Rightarrow> error + state" where
  "main_step cg obstacle_mask s =
     (let time = time_current s + TIME_STEP_LENGTH;
          forces = forcing_function_vectorized time coordinates;
          external_forces = external_force time coordinates;
          velocities_forces_applied = apply_forces (velocities_prev s) forces external_forces
      in
      and_then (advect_vector velocities_forces_applied velocities_forces_applied) (\<lambda>velocities_advected.
      and_then (cg_solution cg diffusion_operator_turbulent (flatten_vector velocities_advected) MAX_ITER_CG) (\<lambda>solved_v.
      and_then (reshape_vector solved_v) (\<lambda>velocities_diffused.
      and_then (cg_solution cg poisson_operator (flatten_scalar (divergence velocities_diffused)) MAX_ITER_CG) (\<lambda>solved_p.
      and_then (reshape_scalar solved_p) (\<lambda>pressure.
      let velocities_projected =
            mask_assign obstacle_mask (0, 0) (vec_sub velocities_diffused (gradient pressure))
      in
      and_then (temperature_step cg (temperature_prev s) velocities_projected temperature_source) (\<lambda>temperature_next.
      Inr \<lparr> velocities_prev = velocities_projected,
            temperature_prev = mask_assign obstacle_mask 0.5 temperature_next,
            time_current = time \<rparr>)))))))"

text \<open>\<open>k\<close> passes through the loop; the script runs \<open>N_TIME_STEPS\<close> of them.\<close>

fun time_loop :: "solver \<Rightarrow> bool list list \<Rightarrow> nat \<Rightarrow> state \<Rightarrow> error + state" where
  "time_loop cg obstacle_mask 0 s = Inr s"
| "time_loop cg obstacle_mask (Suc k) s =
     and_then (main_step cg obstacle_mask s) (time_loop cg obstacle_mask k)"

definition main :: "solver \<Rightarrow> bool list list \<Rightarrow> error + state" where
  "main cg obstacle_mask = time_loop cg obstacle_mask N_TIME_STEPS initial_state"

text \<open>Both fields of a state have the shape of the grid.\<close>

definition well_shaped :: "state \<Rightarrow> bool" where
  "well_shaped s \<longleftrightarrow> has_shape (velocities_prev s) N_POINTS N_POINTS
                    \<and> has_shape (temperature_prev s) N_POINTS N_POINTS"

text \<open>
  A stand-in for the solver, for running the model: it hands back the right-hand side as
  its iterate and reports the given status.
\<close>

definition stub_solver :: "int \<Rightarrow> solver" where
  "stub_solver info A b maxiter = Inr (b, info)"

section \<open>Facts about arrays\<close>

lemma has_shape_iff: "has_shape a n m \<longleftrightarrow> length a = n \<and> (\<forall>i<n. length (a ! i) = m)"
  by (auto simp: has_shape_def list_all_length)

lemma has_shapeD: "has_shape a n m \<Longrightarrow> length a = n"
  "has_shape a n m \<Longrightarrow> i < n \<Longrightarrow> length (a ! i) = m"
  by (auto simp: has_shape_iff)

lemma slice_bound_simps [simp]:
  "slice_bound n 0 = 0"
  "slice_bound n 1 = min n 1"
  "slice_bound n 2 = min n 2"
  "slice_bound n (- 1) = n - 1"
  "slice_bound n (- 2) = n - 2"
  by (auto simp: slice_bound_def)

lemma slice_inner_length [simp]: "length (slice 1 (Some (- 1)) xs) = length xs - 2"
  by (auto simp: slice_def Let_def)

lemma slice_inner_nth [simp]: "i < length xs - 2 \<Longrightarrow> slice 1 (Some (- 1)) xs ! i = xs ! Suc i"
  by (auto simp: slice_def Let_def)

lemma slice_upper_length [simp]: "length (slice 2 None xs) = length xs - 2"
  by (auto simp: slice_def Let_def)

lemma slice_upper_nth [simp]: "i < length xs - 2 \<Longrightarrow> slice 2 None xs ! i = xs ! Suc (Suc i)"
  by (auto simp: slice_def Let_def)

lemma slice_lower_length [simp]: "length (slice 0 (Some (- 2)) xs) = length xs - 2"
  by (auto simp: slice_def Let_def)

lemma slice_lower_nth [simp]: "i < length xs - 2 \<Longrightarrow> slice 0 (Some (- 2)) xs ! i = xs ! i"
  by (auto simp: slice_def Let_def)

lemma set_slice_inner_length:
  "length vs = length xs - 2 \<Longrightarrow> length (set_slice 1 (Some (- 1)) xs vs) = length xs"
  by (auto simp: set_slice_def Let_def)

lemma set_slice_inner_nth:
  assumes "length vs = length xs - 2" and "i < length xs"
  shows "set_slice 1 (Some (- 1)) xs vs ! i =
           (if 1 \<le> i \<and> Suc i < length xs then vs ! (i - 1) else xs ! i)"
proof (cases "length xs < 2")
  case True
  with assms show ?thesis
    by (cases xs) (auto simp: set_slice_def Let_def)
next
  case False
  then have n: "2 \<le> length xs" by simp
  consider "i = 0" | "1 \<le> i" "Suc i < length xs" | "Suc i = length xs" "1 \<le> i"
    using assms(2) by linarith
  then show ?thesis
  proof cases
    case 1
    with n show ?thesis
      by (cases xs) (auto simp: set_slice_def Let_def)
  next
    case 2
    with n assms show ?thesis
      by (auto simp: set_slice_def Let_def nth_append min_def)
  next
    case 3
    then have "length xs - Suc 0 = i" by simp
    with 3 n assms show ?thesis
      by (auto simp: set_slice_def Let_def nth_append min_def max_def)
  qed
qed

lemma slice2_shape:
  assumes "has_shape a n m"
  shows "has_shape (slice2 2 None 1 (Some (- 1)) a) (n - 2) (m - 2)"
    and "has_shape (slice2 0 (Some (- 2)) 1 (Some (- 1)) a) (n - 2) (m - 2)"
    and "has_shape (slice2 1 (Some (- 1)) 2 None a) (n - 2) (m - 2)"
    and "has_shape (slice2 1 (Some (- 1)) 0 (Some (- 2)) a) (n - 2) (m - 2)"
    and "has_shape (slice2 1 (Some (- 1)) 1 (Some (- 1)) a) (n - 2) (m - 2)"
  using assms by (auto simp: has_shape_iff slice2_def)

lemma slice2_nth:
  assumes "has_shape a n m" and "i < n - 2" and "j < m - 2"
  shows "slice2 2 None 1 (Some (- 1)) a ! i ! j = a ! Suc (Suc i) ! Suc j"
    and "slice2 0 (Some (- 2)) 1 (Some (- 1)) a ! i ! j = a ! i ! Suc j"
    and "slice2 1 (Some (- 1)) 2 None a ! i ! j = a ! Suc i ! Suc (Suc j)"
    and "slice2 1 (Some (- 1)) 0 (Some (- 2)) a ! i ! j = a ! Suc i ! j"
    and "slice2 1 (Some (- 1)) 1 (Some (- 1)) a ! i ! j = a ! Suc i ! Suc j"
  using assms by (auto simp: has_shape_iff slice2_def)

lemma set_slice2_shape:
  assumes "has_shape a n m" and "has_shape block (n - 2) (m - 2)"
  shows "has_shape (set_slice2 1 (Some (- 1)) 1 (Some (- 1)) a block) n m"
  using assms
  by (auto simp: has_shape_iff set_slice2_def set_slice_inner_length set_slice_inner_nth)

lemma set_slice2_nth:
  assumes "has_shape a n m" and "has_shape block (n - 2) (m - 2)" and "i < n" and "j < m"
  shows "set_slice2 1 (Some (- 1)) 1 (Some (- 1)) a block ! i ! j =
           (if 1 \<le> i \<and> Suc i < n \<and> 1 \<le> j \<and> Suc j < m then block ! (i - 1) ! (j - 1) else a ! i ! j)"
  using assms
  by (auto simp: has_shape_iff set_slice2_def set_slice_inner_length set_slice_inner_nth)

subsection \<open>Elementwise operations on arrays of one shape\<close>

lemma zeros_like_shape: "has_shape a n m \<Longrightarrow> has_shape (zeros_like a) n m"
  by (auto simp: has_shape_iff zeros_like_def)

lemma zeros_like_nth: "has_shape a n m \<Longrightarrow> i < n \<Longrightarrow> j < m \<Longrightarrow> zeros_like a ! i ! j = 0"
  by (auto simp: has_shape_iff zeros_like_def)

lemma arr_add_shape:
  "has_shape a n m \<Longrightarrow> has_shape b n m \<Longrightarrow> has_shape (arr_add a b) n m"
  by (auto simp: has_shape_iff arr_add_def)

lemma arr_add_nth:
  "has_shape a n m \<Longrightarrow> has_shape b n m \<Longrightarrow> i < n \<Longrightarrow> j < m \<Longrightarrow>
   arr_add a b ! i ! j = a ! i ! j + b ! i ! j"
  by (auto simp: has_shape_iff arr_add_def)

lemma arr_sub_shape:
  "has_shape a n m \<Longrightarrow> has_shape b n m \<Longrightarrow> has_shape (arr_sub a b) n m"
  by (auto simp: has_shape_iff arr_sub_def)

lemma arr_sub_nth:
  "has_shape a n m \<Longrightarrow> has_shape b n m \<Longrightarrow> i < n \<Longrightarrow> j < m \<Longrightarrow>
   arr_sub a b ! i ! j = a ! i ! j - b ! i ! j"
  by (auto simp: has_shape_iff arr_sub_def)

lemma arr_scale_shape: "has_shape a n m \<Longrightarrow> has_shape (arr_scale c a) n m"
  by (auto simp: has_shape_iff arr_scale_def)

lemma arr_scale_nth:
  "has_shape a n m \<Longrightarrow> i < n \<Longrightarrow> j < m \<Longrightarrow> arr_scale c a ! i ! j = c * a ! i ! j"
  by (auto simp: has_shape_iff arr_scale_def)

lemma arr_div_shape: "has_shape a n m \<Longrightarrow> has_shape (arr_div a c) n m"
  by (auto simp: has_shape_iff arr_div_def)

lemma arr_div_nth:
  "has_shape a n m \<Longrightarrow> i < n \<Longrightarrow> j < m \<Longrightarrow> arr_div a c ! i ! j = a ! i ! j / c"
  by (auto simp: has_shape_iff arr_div_def)

lemma comp_shape:
  "has_shape v n m \<Longrightarrow> has_shape (comp0 v) n m"
  "has_shape v n m \<Longrightarrow> has_shape (comp1 v) n m"
  by (auto simp: has_shape_iff comp0_def comp1_def)

lemma comp_nth:
  "has_shape v n m \<Longrightarrow> i < n \<Longrightarrow> j < m \<Longrightarrow> comp0 v ! i ! j = fst (v ! i ! j)"
  "has_shape v n m \<Longrightarrow> i < n \<Longrightarrow> j < m \<Longrightarrow> comp1 v ! i ! j = snd (v ! i ! j)"
  by (auto simp: has_shape_iff comp0_def comp1_def)

lemma stack_shape:
  "has_shape a n m \<Longrightarrow> has_shape b n m \<Longrightarrow> has_shape (stack a b) n m"
  by (auto simp: has_shape_iff stack_def)

lemma stack_nth:
  "has_shape a n m \<Longrightarrow> has_shape b n m \<Longrightarrow> i < n \<Longrightarrow> j < m \<Longrightarrow>
   stack a b ! i ! j = (a ! i ! j, b ! i ! j)"
  by (auto simp: has_shape_iff stack_def)

lemmas shape_intros =
  slice2_shape set_slice2_shape zeros_like_shape arr_add_shape arr_sub_shape
  arr_scale_shape arr_div_shape comp_shape stack_shape


section \<open>Facts about the differential operators\<close>

lemma interior_assign_shape:
  assumes "has_shape f n m" and "has_shape block (n - 2) (m - 2)"
  shows "has_shape (set_slice2 1 (Some (- 1)) 1 (Some (- 1)) (zeros_like f) block) n m"
  using assms by (intro shape_intros)

lemma interior_assign_nth:
  assumes "has_shape f n m" and "has_shape block (n - 2) (m - 2)" and "i < n" and "j < m"
  shows "set_slice2 1 (Some (- 1)) 1 (Some (- 1)) (zeros_like f) block ! i ! j =
           (if 1 \<le> i \<and> Suc i < n \<and> 1 \<le> j \<and> Suc j < m then block ! (i - 1) ! (j - 1) else 0)"
  using set_slice2_nth [OF zeros_like_shape [OF assms(1)] assms(2) assms(3) assms(4)]
        zeros_like_nth [OF assms(1) assms(3) assms(4)]
  by simp

lemma partial_derivative_x_shape:
  "has_shape f n m \<Longrightarrow> has_shape (partial_derivative_x f) n m"
  unfolding partial_derivative_x_def by (intro shape_intros)

lemma partial_derivative_x_nth:
  assumes f: "has_shape f n m" and i: "i < n" and j: "j < m"
  shows "partial_derivative_x f ! i ! j =
           (if 1 \<le> i \<and> Suc i < n \<and> 1 \<le> j \<and> Suc j < m
            then (f ! Suc i ! j - f ! (i - 1) ! j) / (2 * element_length) else 0)"
proof -
  let ?A = "slice2 2 None 1 (Some (- 1)) f"
  let ?B = "slice2 0 (Some (- 2)) 1 (Some (- 1)) f"
  let ?blk = "arr_div (arr_sub ?A ?B) (2 * element_length)"
  have A: "has_shape ?A (n - 2) (m - 2)" and B: "has_shape ?B (n - 2) (m - 2)"
    using f by (simp_all add: slice2_shape)
  have S: "has_shape (arr_sub ?A ?B) (n - 2) (m - 2)"
    using A B by (rule arr_sub_shape)
  have blk: "has_shape ?blk (n - 2) (m - 2)"
    using S by (rule arr_div_shape)
  have inner: "?blk ! (i - 1) ! (j - 1) = (f ! Suc i ! j - f ! (i - 1) ! j) / (2 * element_length)"
    if "1 \<le> i" "Suc i < n" "1 \<le> j" "Suc j < m"
  proof -
    from that have ij: "i - 1 < n - 2" "j - 1 < m - 2"
      and [simp]: "Suc (i - Suc 0) = i" "Suc (j - Suc 0) = j" by auto
    show ?thesis
      using arr_div_nth [OF S ij] arr_sub_nth [OF A B ij] slice2_nth(1,2) [OF f ij]
      by simp
  qed
  show ?thesis
    unfolding partial_derivative_x_def
    using interior_assign_nth [OF f blk i j] inner by simp
qed

lemma partial_derivative_y_shape:
  "has_shape f n m \<Longrightarrow> has_shape (partial_derivative_y f) n m"
  unfolding partial_derivative_y_def by (intro shape_intros)

lemma partial_derivative_y_nth:
  assumes f: "has_shape f n m" and i: "i < n" and j: "j < m"
  shows "partial_derivative_y f ! i ! j =
           (if 1 \<le> i \<and> Suc i < n \<and> 1 \<le> j \<and> Suc j < m
            then (f ! i ! Suc j - f ! i ! (j - 1)) / (2 * element_length) else 0)"
proof -
  let ?A = "slice2 1 (Some (- 1)) 2 None f"
  let ?B = "slice2 1 (Some (- 1)) 0 (Some (- 2)) f"
  let ?blk = "arr_div (arr_sub ?A ?B) (2 * element_length)"
  have A: "has_shape ?A (n - 2) (m - 2)" and B: "has_shape ?B (n - 2) (m - 2)"
    using f by (simp_all add: slice2_shape)
  have S: "has_shape (arr_sub ?A ?B) (n - 2) (m - 2)"
    using A B by (rule arr_sub_shape)
  have blk: "has_shape ?blk (n - 2) (m - 2)"
    using S by (rule arr_div_shape)
  have inner: "?blk ! (i - 1) ! (j - 1) = (f ! i ! Suc j - f ! i ! (j - 1)) / (2 * element_length)"
    if "1 \<le> i" "Suc i < n" "1 \<le> j" "Suc j < m"
  proof -
    from that have ij: "i - 1 < n - 2" "j - 1 < m - 2"
      and [simp]: "Suc (i - Suc 0) = i" "Suc (j - Suc 0) = j" by auto
    show ?thesis
      using arr_div_nth [OF S ij] arr_sub_nth [OF A B ij] slice2_nth(3,4) [OF f ij]
      by simp
  qed
  show ?thesis
    unfolding partial_derivative_y_def
    using interior_assign_nth [OF f blk i j] inner by simp
qed

lemma laplace_shape: "has_shape f n m \<Longrightarrow> has_shape (laplace f) n m"
  unfolding laplace_def by (intro shape_intros)

lemma laplace_nth:
  assumes f: "has_shape f n m" and i: "i < n" and j: "j < m"
  shows "laplace f ! i ! j =
           (if 1 \<le> i \<and> Suc i < n \<and> 1 \<le> j \<and> Suc j < m
            then (f ! (i - 1) ! j + f ! i ! (j - 1) - 4 * f ! i ! j + f ! Suc i ! j + f ! i ! Suc j)
                   / element_length ^ 2
            else 0)"
proof -
  let ?W = "slice2 0 (Some (- 2)) 1 (Some (- 1)) f"
  let ?S = "slice2 1 (Some (- 1)) 0 (Some (- 2)) f"
  let ?C = "slice2 1 (Some (- 1)) 1 (Some (- 1)) f"
  let ?E = "slice2 2 None 1 (Some (- 1)) f"
  let ?N = "slice2 1 (Some (- 1)) 2 None f"
  let ?s1 = "arr_add ?W ?S"
  let ?s2 = "arr_sub ?s1 (arr_scale 4 ?C)"
  let ?s3 = "arr_add ?s2 ?E"
  let ?s4 = "arr_add ?s3 ?N"
  let ?blk = "arr_div ?s4 (element_length ^ 2)"
  have W: "has_shape ?W (n - 2) (m - 2)" and S: "has_shape ?S (n - 2) (m - 2)"
    and C: "has_shape ?C (n - 2) (m - 2)" and E: "has_shape ?E (n - 2) (m - 2)"
    and N: "has_shape ?N (n - 2) (m - 2)"
    using f by (simp_all add: slice2_shape)
  have C4: "has_shape (arr_scale 4 ?C) (n - 2) (m - 2)"
    using C by (rule arr_scale_shape)
  have s1: "has_shape ?s1 (n - 2) (m - 2)" using W S by (rule arr_add_shape)
  have s2: "has_shape ?s2 (n - 2) (m - 2)" using s1 C4 by (rule arr_sub_shape)
  have s3: "has_shape ?s3 (n - 2) (m - 2)" using s2 E by (rule arr_add_shape)
  have s4: "has_shape ?s4 (n - 2) (m - 2)" using s3 N by (rule arr_add_shape)
  have blk: "has_shape ?blk (n - 2) (m - 2)" using s4 by (rule arr_div_shape)
  have inner: "?blk ! (i - 1) ! (j - 1) =
      (f ! (i - 1) ! j + f ! i ! (j - 1) - 4 * f ! i ! j + f ! Suc i ! j + f ! i ! Suc j)
        / element_length ^ 2"
    if "1 \<le> i" "Suc i < n" "1 \<le> j" "Suc j < m"
  proof -
    from that have ij: "i - 1 < n - 2" "j - 1 < m - 2"
      and [simp]: "Suc (i - Suc 0) = i" "Suc (j - Suc 0) = j" by auto
    show ?thesis
      using arr_div_nth [OF s4 ij] arr_add_nth [OF s3 N ij] arr_add_nth [OF s2 E ij]
        arr_sub_nth [OF s1 C4 ij] arr_add_nth [OF W S ij] arr_scale_nth [OF C ij]
        slice2_nth [OF f ij]
      by simp
  qed
  show ?thesis
    unfolding laplace_def
    using interior_assign_nth [OF f blk i j] inner by simp
qed

lemma divergence_shape: "has_shape v n m \<Longrightarrow> has_shape (divergence v) n m"
  unfolding divergence_def
  by (intro arr_add_shape partial_derivative_x_shape partial_derivative_y_shape comp_shape)

lemma divergence_nth:
  assumes "has_shape v n m" and "i < n" and "j < m"
  shows "divergence v ! i ! j =
           partial_derivative_x (comp0 v) ! i ! j + partial_derivative_y (comp1 v) ! i ! j"
  unfolding divergence_def
  using assms
  by (intro arr_add_nth partial_derivative_x_shape partial_derivative_y_shape comp_shape)

lemma curl_2d_shape: "has_shape v n m \<Longrightarrow> has_shape (curl_2d v) n m"
  unfolding curl_2d_def
  by (intro arr_sub_shape partial_derivative_x_shape partial_derivative_y_shape comp_shape)

lemma curl_2d_nth:
  assumes "has_shape v n m" and "i < n" and "j < m"
  shows "curl_2d v ! i ! j =
           partial_derivative_x (comp1 v) ! i ! j - partial_derivative_y (comp0 v) ! i ! j"
  unfolding curl_2d_def
  using assms
  by (intro arr_sub_nth partial_derivative_x_shape partial_derivative_y_shape comp_shape)

lemma gradient_shape: "has_shape f n m \<Longrightarrow> has_shape (gradient f) n m"
  unfolding gradient_def
  by (intro stack_shape partial_derivative_x_shape partial_derivative_y_shape)

lemma gradient_nth:
  assumes "has_shape f n m" and "i < n" and "j < m"
  shows "gradient f ! i ! j = (partial_derivative_x f ! i ! j, partial_derivative_y f ! i ! j)"
  unfolding gradient_def
  using assms
  by (intro stack_nth partial_derivative_x_shape partial_derivative_y_shape)

lemma laplace_vector_shape: "has_shape v n m \<Longrightarrow> has_shape (laplace_vector v) n m"
  unfolding laplace_vector_def
  by (intro stack_shape laplace_shape comp_shape)

lemma laplace_vector_nth:
  assumes "has_shape v n m" and "i < n" and "j < m"
  shows "laplace_vector v ! i ! j = (laplace (comp0 v) ! i ! j, laplace (comp1 v) ! i ! j)"
  unfolding laplace_vector_def
  using assms
  by (intro stack_nth laplace_shape comp_shape)

text \<open>
  C3. On a field of shape \<open>(n, m)\<close> (in the script \<open>n = m = N_POINTS\<close>) and at every interior
  point \<open>1 \<le> i \<le> n - 2\<close>, \<open>1 \<le> j \<le> m - 2\<close>, \<open>partial_derivative_x\<close> and
  \<open>partial_derivative_y\<close> are the central differences over \<open>2h\<close> and \<open>laplace\<close> is the
  five-point stencil over \<open>h\<^sup>2\<close>, where \<open>h = DOMAIN_SIZE / (N_POINTS - 1)\<close> is the grid
  spacing.
\<close>

theorem interior_stencils:
  assumes "has_shape f n m" and "1 \<le> i" and "i \<le> n - 2" and "1 \<le> j" and "j \<le> m - 2"
  shows "partial_derivative_x f ! i ! j = (f ! (i + 1) ! j - f ! (i - 1) ! j) / (2 * element_length)
       \<and> partial_derivative_y f ! i ! j = (f ! i ! (j + 1) - f ! i ! (j - 1)) / (2 * element_length)
       \<and> laplace f ! i ! j =
           (f ! (i - 1) ! j + f ! i ! (j - 1) - 4 * f ! i ! j + f ! (i + 1) ! j + f ! i ! (j + 1))
             / element_length ^ 2
       \<and> element_length = DOMAIN_SIZE / real (N_POINTS - 1)"
proof -
  from assms have b: "i < n" "j < m" "Suc i < n" "Suc j < m" by auto
  have "partial_derivative_x f ! i ! j = (f ! (i + 1) ! j - f ! (i - 1) ! j) / (2 * element_length)"
    using partial_derivative_x_nth [OF assms(1) b(1,2)] assms b by simp
  moreover
  have "partial_derivative_y f ! i ! j = (f ! i ! (j + 1) - f ! i ! (j - 1)) / (2 * element_length)"
    using partial_derivative_y_nth [OF assms(1) b(1,2)] assms b by simp
  moreover
  have "laplace f ! i ! j =
           (f ! (i - 1) ! j + f ! i ! (j - 1) - 4 * f ! i ! j + f ! (i + 1) ! j + f ! i ! (j + 1))
             / element_length ^ 2"
    using laplace_nth [OF assms(1) b(1,2)] assms b by simp
  moreover
  have "element_length = DOMAIN_SIZE / real (N_POINTS - 1)"
    by (rule element_length_def)
  ultimately show ?thesis by blast
qed

theorem interior_stencils_witness:
  "has_shape [[1, 2, 3], [4, 5, 6], [7, 8, 10::real]] 3 3
   \<and> (1::nat) \<le> 1 \<and> (1::nat) \<le> 3 - 2
   \<and> partial_derivative_x [[1, 2, 3], [4, 5, 6], [7, 8, 10]] ! 1 ! 1 = (8 - 2) / (2 * element_length)
   \<and> partial_derivative_y [[1, 2, 3], [4, 5, 6], [7, 8, 10]] ! 1 ! 1 = (6 - 4) / (2 * element_length)
   \<and> laplace [[1, 2, 3], [4, 5, 6], [7, 8, 10]] ! 1 ! 1 = (2 + 4 - 4 * 5 + 8 + 6) / element_length ^ 2"
proof -
  have h: "has_shape [[1, 2, 3], [4, 5, 6], [7, 8, 10::real]] 3 3"
    by (simp add: has_shape_def)
  show ?thesis
    using h interior_stencils [OF h, of 1 1] by simp
qed

text \<open>
  C4. Every differential operator keeps the shape of its input and returns exactly zero at
  every boundary entry (row \<open>0\<close> or \<open>n - 1\<close>, column \<open>0\<close> or \<open>m - 1\<close>), for scalar and for
  vector fields.
\<close>

theorem boundary_entries_zero:
  assumes f: "has_shape f n m" and v: "has_shape v n m" and i: "i < n" and j: "j < m"
    and b: "i = 0 \<or> i = n - 1 \<or> j = 0 \<or> j = m - 1"
  shows "partial_derivative_x f ! i ! j = 0
       \<and> partial_derivative_y f ! i ! j = 0
       \<and> laplace f ! i ! j = 0
       \<and> gradient f ! i ! j = (0, 0)
       \<and> divergence v ! i ! j = 0
       \<and> curl_2d v ! i ! j = 0
       \<and> laplace_vector v ! i ! j = (0, 0)
       \<and> has_shape (partial_derivative_x f) n m \<and> has_shape (partial_derivative_y f) n m
       \<and> has_shape (laplace f) n m \<and> has_shape (gradient f) n m
       \<and> has_shape (divergence v) n m \<and> has_shape (curl_2d v) n m
       \<and> has_shape (laplace_vector v) n m"
proof -
  from b i j have nb: "(1 \<le> i \<and> Suc i < n \<and> 1 \<le> j \<and> Suc j < m) = False" by auto
  have z: "partial_derivative_x g ! i ! j = 0" "partial_derivative_y g ! i ! j = 0"
    "laplace g ! i ! j = 0" if "has_shape g n m" for g
    using partial_derivative_x_nth [OF that i j] partial_derivative_y_nth [OF that i j]
      laplace_nth [OF that i j] by (simp_all only: nb if_False)
  have c: "has_shape (comp0 v) n m" "has_shape (comp1 v) n m"
    using v by (simp_all add: comp_shape)
  have "gradient f ! i ! j = (0, 0)"
    using gradient_nth [OF f i j] z [OF f] by simp
  moreover have "divergence v ! i ! j = 0"
    using divergence_nth [OF v i j] z [OF c(1)] z [OF c(2)] by simp
  moreover have "curl_2d v ! i ! j = 0"
    using curl_2d_nth [OF v i j] z [OF c(1)] z [OF c(2)] by simp
  moreover have "laplace_vector v ! i ! j = (0, 0)"
    using laplace_vector_nth [OF v i j] z [OF c(1)] z [OF c(2)] by simp
  ultimately show ?thesis
    using z [OF f] f v
    by (simp add: partial_derivative_x_shape partial_derivative_y_shape laplace_shape
        gradient_shape divergence_shape curl_2d_shape laplace_vector_shape)
qed

theorem boundary_entries_zero_witness:
  "has_shape [[1, 2, 3], [4, 5, 6], [7, 8, 10::real]] 3 3
   \<and> has_shape [[(1, 2), (3, 4), (5, 6)], [(7, 8), (9, 1), (2, 3)], [(4, 5), (6, 7), (8, 9::real)]] 3 3
   \<and> partial_derivative_x [[1, 2, 3], [4, 5, 6], [7, 8, 10]] ! 2 ! 1 = 0
   \<and> laplace [[1, 2, 3], [4, 5, 6], [7, 8, 10]] ! 2 ! 1 = 0
   \<and> gradient [[1, 2, 3], [4, 5, 6], [7, 8, 10]] ! 2 ! 1 = (0, 0)
   \<and> divergence [[(1, 2), (3, 4), (5, 6)], [(7, 8), (9, 1), (2, 3)], [(4, 5), (6, 7), (8, 9)]] ! 2 ! 1 = 0
   \<and> curl_2d [[(1, 2), (3, 4), (5, 6)], [(7, 8), (9, 1), (2, 3)], [(4, 5), (6, 7), (8, 9)]] ! 2 ! 1 = 0"
proof -
  have f: "has_shape [[1, 2, 3], [4, 5, 6], [7, 8, 10::real]] 3 3"
    by (simp add: has_shape_def)
  have v: "has_shape [[(1, 2), (3, 4), (5, 6)], [(7, 8), (9, 1), (2, 3)], [(4, 5), (6, 7), (8, 9::real)]] 3 3"
    by (simp add: has_shape_def)
  show ?thesis
    using f v boundary_entries_zero [OF f v, of 2 1] by simp
qed

section \<open>Uniform fields and linearity\<close>

lemma uniform_nth: "uniform c a \<Longrightarrow> has_shape a n m \<Longrightarrow> i < n \<Longrightarrow> j < m \<Longrightarrow> a ! i ! j = c"
  by (auto simp: uniform_def has_shape_iff list_all_length)

lemma uniformI:
  "has_shape a n m \<Longrightarrow> (\<And>i j. i < n \<Longrightarrow> j < m \<Longrightarrow> a ! i ! j = c) \<Longrightarrow> uniform c a"
  by (auto simp: uniform_def has_shape_iff list_all_length)

lemma array_eqI:
  assumes "has_shape a n m" and "has_shape b n m"
    and "\<And>i j. i < n \<Longrightarrow> j < m \<Longrightarrow> a ! i ! j = b ! i ! j"
  shows "a = b"
proof (rule nth_equalityI)
  show "length a = length b" using assms(1,2) by (simp add: has_shape_iff)
next
  fix i assume "i < length a"
  then have i: "i < n" using assms(1) by (simp add: has_shape_iff)
  show "a ! i = b ! i"
  proof (rule nth_equalityI)
    show "length (a ! i) = length (b ! i)" using assms(1,2) i by (simp add: has_shape_iff)
  next
    fix j assume "j < length (a ! i)"
    then have "j < m" using assms(1) i by (simp add: has_shape_iff)
    then show "a ! i ! j = b ! i ! j" using i assms(3) by simp
  qed
qed

lemma vec_add_shape:
  "has_shape a n m \<Longrightarrow> has_shape b n m \<Longrightarrow> has_shape (vec_add a b) n m"
  by (auto simp: has_shape_iff vec_add_def)

lemma vec_add_nth:
  "has_shape a n m \<Longrightarrow> has_shape b n m \<Longrightarrow> i < n \<Longrightarrow> j < m \<Longrightarrow>
   vec_add a b ! i ! j = (fst (a ! i ! j) + fst (b ! i ! j), snd (a ! i ! j) + snd (b ! i ! j))"
  by (auto simp: has_shape_iff vec_add_def)

lemma vec_sub_shape:
  "has_shape a n m \<Longrightarrow> has_shape b n m \<Longrightarrow> has_shape (vec_sub a b) n m"
  by (auto simp: has_shape_iff vec_sub_def)

lemma vec_sub_nth:
  "has_shape a n m \<Longrightarrow> has_shape b n m \<Longrightarrow> i < n \<Longrightarrow> j < m \<Longrightarrow>
   vec_sub a b ! i ! j = (fst (a ! i ! j) - fst (b ! i ! j), snd (a ! i ! j) - snd (b ! i ! j))"
  by (auto simp: has_shape_iff vec_sub_def)

lemma vec_scale_shape: "has_shape a n m \<Longrightarrow> has_shape (vec_scale c a) n m"
  by (auto simp: has_shape_iff vec_scale_def)

lemma vec_scale_nth:
  "has_shape a n m \<Longrightarrow> i < n \<Longrightarrow> j < m \<Longrightarrow>
   vec_scale c a ! i ! j = (c * fst (a ! i ! j), c * snd (a ! i ! j))"
  by (auto simp: has_shape_iff vec_scale_def)

lemma scale_by_shape:
  "has_shape s n m \<Longrightarrow> has_shape v n m \<Longrightarrow> has_shape (scale_by s v) n m"
  by (auto simp: has_shape_iff scale_by_def)

lemma scale_by_nth:
  "has_shape s n m \<Longrightarrow> has_shape v n m \<Longrightarrow> i < n \<Longrightarrow> j < m \<Longrightarrow>
   scale_by s v ! i ! j = (s ! i ! j * fst (v ! i ! j), s ! i ! j * snd (v ! i ! j))"
  by (auto simp: has_shape_iff scale_by_def)

text \<open>The linear combination \<open>a * f + b * g\<close> of two scalar fields, and of two vector fields.\<close>

lemma lin_shape:
  "has_shape f n m \<Longrightarrow> has_shape g n m \<Longrightarrow> has_shape (arr_add (arr_scale a f) (arr_scale b g)) n m"
  by (intro arr_add_shape arr_scale_shape)

lemma lin_nth:
  assumes "has_shape f n m" and "has_shape g n m" and "i < n" and "j < m"
  shows "arr_add (arr_scale a f) (arr_scale b g) ! i ! j = a * f ! i ! j + b * g ! i ! j"
  using arr_add_nth [OF arr_scale_shape [OF assms(1)] arr_scale_shape [OF assms(2)] assms(3,4)]
    arr_scale_nth [OF assms(1,3,4)] arr_scale_nth [OF assms(2,3,4)]
  by simp

lemma vlin_shape:
  "has_shape v n m \<Longrightarrow> has_shape w n m \<Longrightarrow> has_shape (vec_add (vec_scale a v) (vec_scale b w)) n m"
  by (intro vec_add_shape vec_scale_shape)

lemma vlin_nth:
  assumes "has_shape v n m" and "has_shape w n m" and "i < n" and "j < m"
  shows "vec_add (vec_scale a v) (vec_scale b w) ! i ! j =
           (a * fst (v ! i ! j) + b * fst (w ! i ! j), a * snd (v ! i ! j) + b * snd (w ! i ! j))"
  using vec_add_nth [OF vec_scale_shape [OF assms(1)] vec_scale_shape [OF assms(2)] assms(3,4)]
    vec_scale_nth [OF assms(1,3,4)] vec_scale_nth [OF assms(2,3,4)]
  by simp

lemma vlin_comp:
  assumes "has_shape v n m" and "has_shape w n m"
  shows "comp0 (vec_add (vec_scale a v) (vec_scale b w)) =
           arr_add (arr_scale a (comp0 v)) (arr_scale b (comp0 w))"
    and "comp1 (vec_add (vec_scale a v) (vec_scale b w)) =
           arr_add (arr_scale a (comp1 v)) (arr_scale b (comp1 w))"
proof -
  have s: "has_shape (vec_add (vec_scale a v) (vec_scale b w)) n m"
    using assms by (rule vlin_shape)
  show "comp0 (vec_add (vec_scale a v) (vec_scale b w)) =
           arr_add (arr_scale a (comp0 v)) (arr_scale b (comp0 w))"
  proof (rule array_eqI [where n = n and m = m])
    fix i j assume ij: "i < n" "j < m"
    show "comp0 (vec_add (vec_scale a v) (vec_scale b w)) ! i ! j =
            arr_add (arr_scale a (comp0 v)) (arr_scale b (comp0 w)) ! i ! j"
      using comp_nth(1) [OF s ij] vlin_nth [OF assms ij]
        lin_nth [OF comp_shape(1) [OF assms(1)] comp_shape(1) [OF assms(2)] ij]
        comp_nth(1) [OF assms(1) ij] comp_nth(1) [OF assms(2) ij]
      by simp
  qed (use assms s in \<open>simp_all add: comp_shape lin_shape\<close>)
  show "comp1 (vec_add (vec_scale a v) (vec_scale b w)) =
           arr_add (arr_scale a (comp1 v)) (arr_scale b (comp1 w))"
  proof (rule array_eqI [where n = n and m = m])
    fix i j assume ij: "i < n" "j < m"
    show "comp1 (vec_add (vec_scale a v) (vec_scale b w)) ! i ! j =
            arr_add (arr_scale a (comp1 v)) (arr_scale b (comp1 w)) ! i ! j"
      using comp_nth(2) [OF s ij] vlin_nth [OF assms ij]
        lin_nth [OF comp_shape(2) [OF assms(1)] comp_shape(2) [OF assms(2)] ij]
        comp_nth(2) [OF assms(1) ij] comp_nth(2) [OF assms(2) ij]
      by simp
  qed (use assms s in \<open>simp_all add: comp_shape lin_shape\<close>)
qed

lemma partial_derivative_x_linear:
  assumes f: "has_shape f n m" and g: "has_shape g n m"
  shows "partial_derivative_x (arr_add (arr_scale a f) (arr_scale b g)) =
           arr_add (arr_scale a (partial_derivative_x f)) (arr_scale b (partial_derivative_x g))"
proof (rule array_eqI [where n = n and m = m])
  fix i j assume ij: "i < n" "j < m"
  have l: "has_shape (arr_add (arr_scale a f) (arr_scale b g)) n m"
    using f g by (rule lin_shape)
  have e: "arr_add (arr_scale a f) (arr_scale b g) ! i' ! j' = a * f ! i' ! j' + b * g ! i' ! j'"
    if "i' < n" "j' < m" for i' j'
    using lin_nth [OF f g that] .
  show "partial_derivative_x (arr_add (arr_scale a f) (arr_scale b g)) ! i ! j =
          arr_add (arr_scale a (partial_derivative_x f)) (arr_scale b (partial_derivative_x g)) ! i ! j"
    using partial_derivative_x_nth [OF l ij] partial_derivative_x_nth [OF f ij]
      partial_derivative_x_nth [OF g ij]
      lin_nth [OF partial_derivative_x_shape [OF f] partial_derivative_x_shape [OF g] ij] ij
    by (auto simp: e algebra_simps diff_divide_distrib add_divide_distrib)
qed (use f g in \<open>simp_all add: partial_derivative_x_shape lin_shape\<close>)

lemma partial_derivative_y_linear:
  assumes f: "has_shape f n m" and g: "has_shape g n m"
  shows "partial_derivative_y (arr_add (arr_scale a f) (arr_scale b g)) =
           arr_add (arr_scale a (partial_derivative_y f)) (arr_scale b (partial_derivative_y g))"
proof (rule array_eqI [where n = n and m = m])
  fix i j assume ij: "i < n" "j < m"
  have l: "has_shape (arr_add (arr_scale a f) (arr_scale b g)) n m"
    using f g by (rule lin_shape)
  have e: "arr_add (arr_scale a f) (arr_scale b g) ! i' ! j' = a * f ! i' ! j' + b * g ! i' ! j'"
    if "i' < n" "j' < m" for i' j'
    using lin_nth [OF f g that] .
  show "partial_derivative_y (arr_add (arr_scale a f) (arr_scale b g)) ! i ! j =
          arr_add (arr_scale a (partial_derivative_y f)) (arr_scale b (partial_derivative_y g)) ! i ! j"
    using partial_derivative_y_nth [OF l ij] partial_derivative_y_nth [OF f ij]
      partial_derivative_y_nth [OF g ij]
      lin_nth [OF partial_derivative_y_shape [OF f] partial_derivative_y_shape [OF g] ij] ij
    by (auto simp: e algebra_simps diff_divide_distrib add_divide_distrib)
qed (use f g in \<open>simp_all add: partial_derivative_y_shape lin_shape\<close>)

lemma laplace_linear:
  assumes f: "has_shape f n m" and g: "has_shape g n m"
  shows "laplace (arr_add (arr_scale a f) (arr_scale b g)) =
           arr_add (arr_scale a (laplace f)) (arr_scale b (laplace g))"
proof (rule array_eqI [where n = n and m = m])
  fix i j assume ij: "i < n" "j < m"
  have l: "has_shape (arr_add (arr_scale a f) (arr_scale b g)) n m"
    using f g by (rule lin_shape)
  have e: "arr_add (arr_scale a f) (arr_scale b g) ! i' ! j' = a * f ! i' ! j' + b * g ! i' ! j'"
    if "i' < n" "j' < m" for i' j'
    using lin_nth [OF f g that] .
  show "laplace (arr_add (arr_scale a f) (arr_scale b g)) ! i ! j =
          arr_add (arr_scale a (laplace f)) (arr_scale b (laplace g)) ! i ! j"
    using laplace_nth [OF l ij] laplace_nth [OF f ij] laplace_nth [OF g ij]
      lin_nth [OF laplace_shape [OF f] laplace_shape [OF g] ij] ij
    by (auto simp: e algebra_simps diff_divide_distrib add_divide_distrib)
qed (use f g in \<open>simp_all add: laplace_shape lin_shape\<close>)

lemma gradient_linear:
  assumes f: "has_shape f n m" and g: "has_shape g n m"
  shows "gradient (arr_add (arr_scale a f) (arr_scale b g)) =
           vec_add (vec_scale a (gradient f)) (vec_scale b (gradient g))"
proof (rule array_eqI [where n = n and m = m])
  fix i j assume ij: "i < n" "j < m"
  have l: "has_shape (arr_add (arr_scale a f) (arr_scale b g)) n m"
    using f g by (rule lin_shape)
  show "gradient (arr_add (arr_scale a f) (arr_scale b g)) ! i ! j =
          vec_add (vec_scale a (gradient f)) (vec_scale b (gradient g)) ! i ! j"
    using gradient_nth [OF l ij] gradient_nth [OF f ij] gradient_nth [OF g ij]
      vlin_nth [OF gradient_shape [OF f] gradient_shape [OF g] ij]
      lin_nth [OF partial_derivative_x_shape [OF f] partial_derivative_x_shape [OF g] ij]
      lin_nth [OF partial_derivative_y_shape [OF f] partial_derivative_y_shape [OF g] ij]
    by (simp add: partial_derivative_x_linear [OF f g] partial_derivative_y_linear [OF f g])
qed (use f g in \<open>simp_all add: gradient_shape lin_shape vlin_shape\<close>)

lemma divergence_linear:
  assumes v: "has_shape v n m" and w: "has_shape w n m"
  shows "divergence (vec_add (vec_scale a v) (vec_scale b w)) =
           arr_add (arr_scale a (divergence v)) (arr_scale b (divergence w))"
proof (rule array_eqI [where n = n and m = m])
  fix i j assume ij: "i < n" "j < m"
  have l: "has_shape (vec_add (vec_scale a v) (vec_scale b w)) n m"
    using v w by (rule vlin_shape)
  note c = comp_shape [OF v] comp_shape [OF w]
  show "divergence (vec_add (vec_scale a v) (vec_scale b w)) ! i ! j =
          arr_add (arr_scale a (divergence v)) (arr_scale b (divergence w)) ! i ! j"
    using divergence_nth [OF l ij] divergence_nth [OF v ij] divergence_nth [OF w ij]
      lin_nth [OF divergence_shape [OF v] divergence_shape [OF w] ij]
      lin_nth [OF partial_derivative_x_shape [OF c(1)] partial_derivative_x_shape [OF c(3)] ij]
      lin_nth [OF partial_derivative_y_shape [OF c(2)] partial_derivative_y_shape [OF c(4)] ij]
    by (simp add: vlin_comp [OF v w] partial_derivative_x_linear [OF c(1) c(3)]
        partial_derivative_y_linear [OF c(2) c(4)] algebra_simps)
qed (use v w in \<open>simp_all add: divergence_shape lin_shape vlin_shape\<close>)

lemma curl_2d_linear:
  assumes v: "has_shape v n m" and w: "has_shape w n m"
  shows "curl_2d (vec_add (vec_scale a v) (vec_scale b w)) =
           arr_add (arr_scale a (curl_2d v)) (arr_scale b (curl_2d w))"
proof (rule array_eqI [where n = n and m = m])
  fix i j assume ij: "i < n" "j < m"
  have l: "has_shape (vec_add (vec_scale a v) (vec_scale b w)) n m"
    using v w by (rule vlin_shape)
  note c = comp_shape [OF v] comp_shape [OF w]
  have L: "curl_2d (vec_add (vec_scale a v) (vec_scale b w)) ! i ! j =
      (a * partial_derivative_x (comp1 v) ! i ! j + b * partial_derivative_x (comp1 w) ! i ! j)
      - (a * partial_derivative_y (comp0 v) ! i ! j + b * partial_derivative_y (comp0 w) ! i ! j)"
    using curl_2d_nth [OF l ij]
      lin_nth [OF partial_derivative_x_shape [OF c(2)] partial_derivative_x_shape [OF c(4)] ij]
      lin_nth [OF partial_derivative_y_shape [OF c(1)] partial_derivative_y_shape [OF c(3)] ij]
    by (simp add: vlin_comp [OF v w] partial_derivative_x_linear [OF c(2) c(4)]
        partial_derivative_y_linear [OF c(1) c(3)])
  have R: "arr_add (arr_scale a (curl_2d v)) (arr_scale b (curl_2d w)) ! i ! j =
      a * (partial_derivative_x (comp1 v) ! i ! j - partial_derivative_y (comp0 v) ! i ! j)
      + b * (partial_derivative_x (comp1 w) ! i ! j - partial_derivative_y (comp0 w) ! i ! j)"
    using lin_nth [OF curl_2d_shape [OF v] curl_2d_shape [OF w] ij]
      curl_2d_nth [OF v ij] curl_2d_nth [OF w ij]
    by simp
  show "curl_2d (vec_add (vec_scale a v) (vec_scale b w)) ! i ! j =
          arr_add (arr_scale a (curl_2d v)) (arr_scale b (curl_2d w)) ! i ! j"
    unfolding L R by (simp add: algebra_simps)
qed (use v w in \<open>simp_all add: curl_2d_shape lin_shape vlin_shape\<close>)

lemma uniform_derivatives:
  assumes z: "has_shape z n m" and u: "uniform c z" and ij: "i < n" "j < m"
  shows "partial_derivative_x z ! i ! j = 0" and "partial_derivative_y z ! i ! j = 0"
    and "laplace z ! i ! j = 0"
proof -
  have e: "z ! i' ! j' = c" if "i' < n" "j' < m" for i' j'
    using uniform_nth [OF u z that] .
  show "partial_derivative_x z ! i ! j = 0"
    using partial_derivative_x_nth [OF z ij] ij by (auto simp: e)
  show "partial_derivative_y z ! i ! j = 0"
    using partial_derivative_y_nth [OF z ij] ij by (auto simp: e)
  show "laplace z ! i ! j = 0"
    using laplace_nth [OF z ij] ij by (auto simp: e)
qed

lemma uniform_comp:
  assumes "has_shape u n m" and "uniform c u"
  shows "uniform (fst c) (comp0 u)" and "uniform (snd c) (comp1 u)"
  using assms by (auto simp: uniform_def comp0_def comp1_def list_all_length)

text \<open>
  C5. On a uniformly constant field the gradient and the laplacian are zero, and so is the
  divergence of a uniformly constant vector field, at every point of the grid (interior
  points included). Every operator is linear, and maps the zero field to the zero field.
\<close>

theorem constant_fields_and_linearity:
  assumes z: "has_shape z n m" "uniform c z"
    and u: "has_shape u n m" "uniform cv u"
    and o: "has_shape zs n m" "uniform 0 zs"
    and ov: "has_shape zv n m" "uniform (0, 0) zv"
    and f: "has_shape f n m" and g: "has_shape g n m"
    and v: "has_shape v n m" and w: "has_shape w n m"
    and ij: "i < n" "j < m"
  shows "gradient z ! i ! j = (0, 0) \<and> laplace z ! i ! j = 0 \<and> divergence u ! i ! j = 0
    \<and> partial_derivative_x (arr_add (arr_scale a f) (arr_scale b g)) =
        arr_add (arr_scale a (partial_derivative_x f)) (arr_scale b (partial_derivative_x g))
    \<and> partial_derivative_y (arr_add (arr_scale a f) (arr_scale b g)) =
        arr_add (arr_scale a (partial_derivative_y f)) (arr_scale b (partial_derivative_y g))
    \<and> laplace (arr_add (arr_scale a f) (arr_scale b g)) =
        arr_add (arr_scale a (laplace f)) (arr_scale b (laplace g))
    \<and> gradient (arr_add (arr_scale a f) (arr_scale b g)) =
        vec_add (vec_scale a (gradient f)) (vec_scale b (gradient g))
    \<and> divergence (vec_add (vec_scale a v) (vec_scale b w)) =
        arr_add (arr_scale a (divergence v)) (arr_scale b (divergence w))
    \<and> curl_2d (vec_add (vec_scale a v) (vec_scale b w)) =
        arr_add (arr_scale a (curl_2d v)) (arr_scale b (curl_2d w))
    \<and> uniform 0 (partial_derivative_x zs) \<and> uniform 0 (partial_derivative_y zs)
    \<and> uniform 0 (laplace zs) \<and> uniform (0, 0) (gradient zs)
    \<and> uniform 0 (divergence zv) \<and> uniform 0 (curl_2d zv)"
proof -
  have d: "partial_derivative_x k ! i' ! j' = 0" "partial_derivative_y k ! i' ! j' = 0"
    "laplace k ! i' ! j' = 0" "gradient k ! i' ! j' = (0, 0)"
    if "i' < n" "j' < m" "has_shape k n m" "uniform c' k" for i' j' k c'
    using uniform_derivatives [OF that(3,4,1,2)] gradient_nth [OF that(3,1,2)]
    by simp_all
  have dv: "divergence k ! i' ! j' = 0" "curl_2d k ! i' ! j' = 0"
    if "i' < n" "j' < m" "has_shape k n m" "uniform c' k" for i' j' k c'
  proof -
    note ck = comp_shape [OF that(3)] uniform_comp [OF that(3,4)]
    show "divergence k ! i' ! j' = 0" "curl_2d k ! i' ! j' = 0"
      using divergence_nth [OF that(3,1,2)] curl_2d_nth [OF that(3,1,2)]
        uniform_derivatives(1,2) [OF ck(1) ck(3) that(1,2)]
        uniform_derivatives(1,2) [OF ck(2) ck(4) that(1,2)]
      by simp_all
  qed
  have zero: "uniform 0 (partial_derivative_x zs)" "uniform 0 (partial_derivative_y zs)"
    "uniform 0 (laplace zs)" "uniform (0, 0) (gradient zs)"
    using d [OF _ _ o] o(1)
    by (auto intro!: uniformI [where n = n and m = m] partial_derivative_x_shape
        partial_derivative_y_shape laplace_shape gradient_shape)
  have zerov: "uniform 0 (divergence zv)" "uniform 0 (curl_2d zv)"
    using dv [OF _ _ ov] ov(1)
    by (auto intro!: uniformI [where n = n and m = m] divergence_shape curl_2d_shape)
  show ?thesis
    using d(3,4) [OF ij z] dv(1) [OF ij u] zero zerov
      partial_derivative_x_linear [OF f g] partial_derivative_y_linear [OF f g]
      laplace_linear [OF f g] gradient_linear [OF f g] divergence_linear [OF v w]
      curl_2d_linear [OF v w]
    by simp
qed

theorem constant_fields_and_linearity_witness:
  "has_shape [[7, 7, 7], [7, 7, 7], [7, 7, 7::real]] 3 3
   \<and> uniform 7 [[7, 7, 7], [7, 7, 7], [7, 7, 7::real]]
   \<and> uniform (1, 2) [[(1, 2), (1, 2), (1, 2)], [(1, 2), (1, 2), (1, 2)], [(1, 2), (1, 2), (1, 2::real)]]
   \<and> uniform 0 [[0, 0, 0], [0, 0, 0], [0, 0, 0::real]]
   \<and> has_shape [[1, 2, 3], [4, 5, 6], [7, 8, 10::real]] 3 3
   \<and> gradient [[7, 7, 7], [7, 7, 7], [7, 7, 7]] ! 1 ! 1 = (0, 0)
   \<and> laplace [[7, 7, 7], [7, 7, 7], [7, 7, 7]] ! 1 ! 1 = 0
   \<and> divergence [[(1, 2), (1, 2), (1, 2)], [(1, 2), (1, 2), (1, 2)], [(1, 2), (1, 2), (1, 2)]] ! 1 ! 1 = 0
   \<and> laplace (arr_add (arr_scale 2 [[1, 2, 3], [4, 5, 6], [7, 8, 10]])
                       (arr_scale 3 [[0, 1, 0], [1, 0, 1], [2, 2, 5]])) =
       arr_add (arr_scale 2 (laplace [[1, 2, 3], [4, 5, 6], [7, 8, 10]]))
               (arr_scale 3 (laplace [[0, 1, 0], [1, 0, 1], [2, 2, 5]]))
   \<and> uniform 0 (laplace [[0, 0, 0], [0, 0, 0], [0, 0, 0]])"
proof -
  let ?z = "[[7, 7, 7], [7, 7, 7], [7, 7, 7::real]]"
  let ?u = "[[(1, 2), (1, 2), (1, 2)], [(1, 2), (1, 2), (1, 2)], [(1, 2), (1, 2), (1, 2::real)]]"
  let ?o = "[[0, 0, 0], [0, 0, 0], [0, 0, 0::real]]"
  let ?ov = "[[(0, 0), (0, 0), (0, 0)], [(0, 0), (0, 0), (0, 0)], [(0, 0), (0, 0), (0, 0::real)]]"
  let ?f = "[[1, 2, 3], [4, 5, 6], [7, 8, 10::real]]"
  let ?g = "[[0, 1, 0], [1, 0, 1], [2, 2, 5::real]]"
  let ?v = "[[(1, 2), (3, 4), (5, 6)], [(7, 8), (9, 1), (2, 3)], [(4, 5), (6, 7), (8, 9::real)]]"
  have h: "has_shape ?z 3 3" "uniform 7 ?z" "has_shape ?u 3 3" "uniform (1, 2) ?u"
    "has_shape ?o 3 3" "uniform 0 ?o" "has_shape ?ov 3 3" "uniform (0, 0) ?ov"
    "has_shape ?f 3 3" "has_shape ?g 3 3" "has_shape ?v 3 3"
    by (simp_all add: has_shape_def uniform_def)
  show ?thesis
    using h constant_fields_and_linearity [OF h(1-11) h(3), where i = 1 and j = 1 and a = 2 and b = 3]
    by simp
qed

section \<open>Facts about the turbulence model\<close>

lemma map_map_shape: "has_shape a n m \<Longrightarrow> has_shape (map (map h) a) n m"
  by (auto simp: has_shape_iff)

lemma map_map_nth: "has_shape a n m \<Longrightarrow> i < n \<Longrightarrow> j < m \<Longrightarrow> map (map h) a ! i ! j = h (a ! i ! j)"
  by (auto simp: has_shape_iff)

lemma compute_strain_rate_shape:
  "has_shape v n m \<Longrightarrow> has_shape (compute_strain_rate v) n m"
  unfolding compute_strain_rate_def Let_def
  by (intro map_map_shape arr_scale_shape arr_add_shape partial_derivative_x_shape
      partial_derivative_y_shape comp_shape)

lemma compute_strain_rate_nth:
  assumes v: "has_shape v n m" and ij: "i < n" "j < m"
  shows "compute_strain_rate v ! i ! j =
           sqrt (2 * ((partial_derivative_x (comp0 v) ! i ! j) ^ 2
                      + (partial_derivative_y (comp1 v) ! i ! j) ^ 2
                      + 2 * (0.5 * (partial_derivative_y (comp0 v) ! i ! j
                                    + partial_derivative_x (comp1 v) ! i ! j)) ^ 2))"
proof -
  let ?S11 = "partial_derivative_x (comp0 v)"
  let ?S22 = "partial_derivative_y (comp1 v)"
  let ?dudy = "partial_derivative_y (comp0 v)"
  let ?dvdx = "partial_derivative_x (comp1 v)"
  let ?S12 = "arr_scale 0.5 (arr_add ?dudy ?dvdx)"
  let ?sq = "map (map (\<lambda>v::real. v ^ 2))"
  note c = comp_shape [OF v]
  have s: "has_shape ?S11 n m" "has_shape ?S22 n m" "has_shape ?dudy n m" "has_shape ?dvdx n m"
    using c by (simp_all add: partial_derivative_x_shape partial_derivative_y_shape)
  have a12: "has_shape (arr_add ?dudy ?dvdx) n m" using s(3,4) by (rule arr_add_shape)
  have s12: "has_shape ?S12 n m" using a12 by (rule arr_scale_shape)
  have q: "has_shape (?sq ?S11) n m" "has_shape (?sq ?S22) n m" "has_shape (?sq ?S12) n m"
    using s(1,2) s12 by (simp_all add: map_map_shape)
  have q2: "has_shape (arr_scale 2 (?sq ?S12)) n m" using q(3) by (rule arr_scale_shape)
  have t1: "has_shape (arr_add (?sq ?S11) (?sq ?S22)) n m" using q(1,2) by (rule arr_add_shape)
  have t2: "has_shape (arr_add (arr_add (?sq ?S11) (?sq ?S22)) (arr_scale 2 (?sq ?S12))) n m"
    using t1 q2 by (rule arr_add_shape)
  have t3: "has_shape (arr_scale 2 (arr_add (arr_add (?sq ?S11) (?sq ?S22)) (arr_scale 2 (?sq ?S12)))) n m"
    using t2 by (rule arr_scale_shape)
  show ?thesis
    unfolding compute_strain_rate_def Let_def
    by (simp only: map_map_nth [OF t3 ij, of sqrt] arr_scale_nth [OF t2 ij, of 2]
      arr_add_nth [OF t1 q2 ij] arr_add_nth [OF q(1,2) ij] arr_scale_nth [OF q(3) ij, of 2]
      map_map_nth [OF s(1) ij, of "\<lambda>v. v ^ 2"] map_map_nth [OF s(2) ij, of "\<lambda>v. v ^ 2"]
      map_map_nth [OF s12 ij, of "\<lambda>v. v ^ 2"] arr_scale_nth [OF a12 ij, of "0.5"]
      arr_add_nth [OF s(3,4) ij])
qed

lemma compute_turbulent_viscosity_shape:
  "has_shape v n m \<Longrightarrow> has_shape (compute_turbulent_viscosity v) n m"
  unfolding compute_turbulent_viscosity_def
  by (intro arr_scale_shape compute_strain_rate_shape)

lemma compute_turbulent_viscosity_nth:
  assumes "has_shape v n m" and "i < n" and "j < m"
  shows "compute_turbulent_viscosity v ! i ! j =
           (SMAGORINSKY_CONSTANT * element_length) ^ 2 * compute_strain_rate v ! i ! j"
  unfolding compute_turbulent_viscosity_def
  using arr_scale_nth [OF compute_strain_rate_shape [OF assms(1)] assms(2,3)] .

lemma effective_viscosity_shape:
  "has_shape v n m \<Longrightarrow> has_shape (effective_viscosity v) n m"
  unfolding effective_viscosity_def
  by (intro map_map_shape compute_turbulent_viscosity_shape)

lemma effective_viscosity_nth:
  assumes "has_shape v n m" and "i < n" and "j < m"
  shows "effective_viscosity v ! i ! j = KINEMATIC_VISCOSITY + compute_turbulent_viscosity v ! i ! j"
  unfolding effective_viscosity_def
  using map_map_nth [OF compute_turbulent_viscosity_shape [OF assms(1)] assms(2,3)] .

lemma diffused_component_shape:
  "has_shape v n m \<Longrightarrow> has_shape c n m \<Longrightarrow> has_shape (diffused_component v c) n m"
  unfolding diffused_component_def
  by (intro arr_sub_shape arr_scale_shape divergence_shape scale_by_shape
      effective_viscosity_shape gradient_shape)

lemma diffused_component_nth:
  assumes v: "has_shape v n m" and c: "has_shape c n m" and ij: "i < n" "j < m"
  shows "diffused_component v c ! i ! j =
           c ! i ! j - TIME_STEP_LENGTH
             * divergence (scale_by (effective_viscosity v) (gradient c)) ! i ! j"
proof -
  have d: "has_shape (divergence (scale_by (effective_viscosity v) (gradient c))) n m"
    using v c by (intro divergence_shape scale_by_shape effective_viscosity_shape gradient_shape)
  show ?thesis
    unfolding diffused_component_def
    using arr_sub_nth [OF c arr_scale_shape [OF d] ij] arr_scale_nth [OF d ij]
    by simp
qed

lemma diffused_field_shape: "has_shape v n m \<Longrightarrow> has_shape (diffused_field v) n m"
  unfolding diffused_field_def
  by (intro stack_shape diffused_component_shape comp_shape)

text \<open>
  C8. At every grid point the strain-rate magnitude is
  \<open>sqrt (2 (S11\<^sup>2 + S22\<^sup>2 + 2 S12\<^sup>2))\<close> with \<open>S11 = \<partial>u/\<partial>x\<close>, \<open>S22 = \<partial>v/\<partial>y\<close> and
  \<open>S12 = (\<partial>u/\<partial>y + \<partial>v/\<partial>x) / 2\<close> taken from the central-difference partials; the eddy
  viscosity is \<open>(C\<^sub>s h)\<^sup>2 |S|\<close> with \<open>C\<^sub>s = 0.1\<close>; and the turbulent diffusion operator
  multiplies the gradient of each velocity component by
  \<open>KINEMATIC_VISCOSITY + \<nu>\<^sub>t\<close> at the same grid point.
\<close>

theorem smagorinsky_model:
  assumes v: "has_shape v n m" and ij: "i < n" "j < m"
  shows "compute_strain_rate v ! i ! j =
           sqrt (2 * ((partial_derivative_x (comp0 v) ! i ! j) ^ 2
                      + (partial_derivative_y (comp1 v) ! i ! j) ^ 2
                      + 2 * (0.5 * (partial_derivative_y (comp0 v) ! i ! j
                                    + partial_derivative_x (comp1 v) ! i ! j)) ^ 2))
    \<and> compute_turbulent_viscosity v ! i ! j =
           (SMAGORINSKY_CONSTANT * element_length) ^ 2 * compute_strain_rate v ! i ! j
    \<and> SMAGORINSKY_CONSTANT = 0.1
    \<and> effective_viscosity v ! i ! j = KINEMATIC_VISCOSITY + compute_turbulent_viscosity v ! i ! j
    \<and> scale_by (effective_viscosity v) (gradient (comp0 v)) ! i ! j =
         (effective_viscosity v ! i ! j * partial_derivative_x (comp0 v) ! i ! j,
          effective_viscosity v ! i ! j * partial_derivative_y (comp0 v) ! i ! j)
    \<and> scale_by (effective_viscosity v) (gradient (comp1 v)) ! i ! j =
         (effective_viscosity v ! i ! j * partial_derivative_x (comp1 v) ! i ! j,
          effective_viscosity v ! i ! j * partial_derivative_y (comp1 v) ! i ! j)
    \<and> diffused_field v ! i ! j =
         (fst (v ! i ! j) - TIME_STEP_LENGTH
            * divergence (scale_by (effective_viscosity v) (gradient (comp0 v))) ! i ! j,
          snd (v ! i ! j) - TIME_STEP_LENGTH
            * divergence (scale_by (effective_viscosity v) (gradient (comp1 v))) ! i ! j)
    \<and> (case reshape_vector (flatten_vector v) of
          Inl e \<Rightarrow> diffusion_operator_turbulent (flatten_vector v) = Inl e
        | Inr v' \<Rightarrow> diffusion_operator_turbulent (flatten_vector v)
                     = Inr (flatten_vector (diffused_field v')))"
proof -
  note c = comp_shape [OF v]
  note e = effective_viscosity_shape [OF v]
  have g: "scale_by (effective_viscosity v) (gradient k) ! i ! j =
         (effective_viscosity v ! i ! j * partial_derivative_x k ! i ! j,
          effective_viscosity v ! i ! j * partial_derivative_y k ! i ! j)"
    if "has_shape k n m" for k
    using scale_by_nth [OF e gradient_shape [OF that] ij] gradient_nth [OF that ij]
    by simp
  have d: "diffused_field v ! i ! j =
         (fst (v ! i ! j) - TIME_STEP_LENGTH
            * divergence (scale_by (effective_viscosity v) (gradient (comp0 v))) ! i ! j,
          snd (v ! i ! j) - TIME_STEP_LENGTH
            * divergence (scale_by (effective_viscosity v) (gradient (comp1 v))) ! i ! j)"
    unfolding diffused_field_def
    using stack_nth [OF diffused_component_shape [OF v c(1)] diffused_component_shape [OF v c(2)] ij]
      diffused_component_nth [OF v c(1) ij] diffused_component_nth [OF v c(2) ij]
      comp_nth(1) [OF v ij] comp_nth(2) [OF v ij]
    by simp
  have r: "(case reshape_vector flat of
          Inl e \<Rightarrow> diffusion_operator_turbulent flat = Inl e
        | Inr v' \<Rightarrow> diffusion_operator_turbulent flat = Inr (flatten_vector (diffused_field v')))"
    for flat
    by (simp add: diffusion_operator_turbulent_def and_then_def split: sum.splits)
  show ?thesis
    using compute_strain_rate_nth [OF v ij] compute_turbulent_viscosity_nth [OF v ij]
      effective_viscosity_nth [OF v ij] g [OF c(1)] g [OF c(2)] d r
    by (simp add: SMAGORINSKY_CONSTANT_def)
qed

theorem smagorinsky_model_witness:
  "has_shape [[(1, 2), (3, 4), (5, 6)], [(7, 8), (9, 1), (2, 3)], [(4, 5), (6, 7), (8, 9::real)]] 3 3
   \<and> compute_turbulent_viscosity
        [[(1, 2), (3, 4), (5, 6)], [(7, 8), (9, 1), (2, 3)], [(4, 5), (6, 7), (8, 9)]] ! 1 ! 1 =
      (SMAGORINSKY_CONSTANT * element_length) ^ 2 * compute_strain_rate
        [[(1, 2), (3, 4), (5, 6)], [(7, 8), (9, 1), (2, 3)], [(4, 5), (6, 7), (8, 9)]] ! 1 ! 1
   \<and> effective_viscosity
        [[(1, 2), (3, 4), (5, 6)], [(7, 8), (9, 1), (2, 3)], [(4, 5), (6, 7), (8, 9)]] ! 1 ! 1 =
      KINEMATIC_VISCOSITY + compute_turbulent_viscosity
        [[(1, 2), (3, 4), (5, 6)], [(7, 8), (9, 1), (2, 3)], [(4, 5), (6, 7), (8, 9)]] ! 1 ! 1"
proof -
  have h: "has_shape [[(1, 2), (3, 4), (5, 6)], [(7, 8), (9, 1), (2, 3)], [(4, 5), (6, 7), (8, 9::real)]] 3 3"
    by (simp add: has_shape_def)
  show ?thesis
    using h smagorinsky_model [OF h, of 1 1] by simp
qed

text \<open>
  C10. The turbulent viscosity is nonnegative at every grid point, so the effective
  viscosity of the turbulent diffusion operator is at least the molecular viscosity.
\<close>

theorem turbulent_viscosity_nonnegative:
  assumes v: "has_shape v n m" and ij: "i < n" "j < m"
  shows "0 \<le> compute_turbulent_viscosity v ! i ! j
       \<and> KINEMATIC_VISCOSITY \<le> effective_viscosity v ! i ! j"
proof -
  have "0 \<le> compute_strain_rate v ! i ! j"
    unfolding compute_strain_rate_nth [OF v ij] by simp
  then have "0 \<le> compute_turbulent_viscosity v ! i ! j"
    unfolding compute_turbulent_viscosity_nth [OF v ij] by simp
  then show ?thesis
    using effective_viscosity_nth [OF v ij] by simp
qed

theorem turbulent_viscosity_nonnegative_witness:
  "has_shape [[(1, 2), (3, 4), (5, 6)], [(7, 8), (9, 1), (2, 3)], [(4, 5), (6, 7), (8, 9::real)]] 3 3
   \<and> 0 \<le> compute_turbulent_viscosity
        [[(1, 2), (3, 4), (5, 6)], [(7, 8), (9, 1), (2, 3)], [(4, 5), (6, 7), (8, 9)]] ! 1 ! 1
   \<and> KINEMATIC_VISCOSITY \<le> effective_viscosity
        [[(1, 2), (3, 4), (5, 6)], [(7, 8), (9, 1), (2, 3)], [(4, 5), (6, 7), (8, 9)]] ! 1 ! 1"
proof -
  have h: "has_shape [[(1, 2), (3, 4), (5, 6)], [(7, 8), (9, 1), (2, 3)], [(4, 5), (6, 7), (8, 9::real)]] 3 3"
    by (simp add: has_shape_def)
  show ?thesis
    using h turbulent_viscosity_nonnegative [OF h, of 1 1] by simp
qed

section \<open>Facts about the forces\<close>

lemma forcing_function_vectorized_shape:
  "has_shape c n m \<Longrightarrow> has_shape (forcing_function_vectorized t c) n m"
  unfolding forcing_function_vectorized_def by (rule map_map_shape)

lemma forcing_function_vectorized_nth:
  "has_shape c n m \<Longrightarrow> i < n \<Longrightarrow> j < m \<Longrightarrow>
   forcing_function_vectorized t c ! i ! j = forcing_function t (c ! i ! j)"
  unfolding forcing_function_vectorized_def by (rule map_map_nth)

lemma apply_forces_shape:
  "has_shape v n m \<Longrightarrow> has_shape f n m \<Longrightarrow> has_shape e n m \<Longrightarrow>
   has_shape (apply_forces v f e) n m"
  unfolding apply_forces_def by (intro vec_add_shape vec_scale_shape)

lemma apply_forces_nth:
  assumes v: "has_shape v n m" and f: "has_shape f n m" and e: "has_shape e n m"
    and ij: "i < n" "j < m"
  shows "apply_forces v f e ! i ! j =
           (fst (v ! i ! j) + TIME_STEP_LENGTH * (fst (f ! i ! j) + fst (e ! i ! j)),
            snd (v ! i ! j) + TIME_STEP_LENGTH * (snd (f ! i ! j) + snd (e ! i ! j)))"
proof -
  have s: "has_shape (vec_add f e) n m" using f e by (rule vec_add_shape)
  show ?thesis
    unfolding apply_forces_def
    using vec_add_nth [OF v vec_scale_shape [OF s] ij] vec_scale_nth [OF s ij]
      vec_add_nth [OF f e ij]
    by simp
qed

text \<open>
  C9. At time \<open>0.1\<close> (the time of the first pass through the loop) the decay factor is
  \<open>1.95\<close>, and the forcing function is \<open>(0, 1.95)\<close> strictly inside the region
  \<open>0.4 < x < 0.6\<close>, \<open>0.1 < y < 0.3\<close> and \<open>(0, 0)\<close> at every other point. Applying the forces
  to a zero velocity field with a zero external force field therefore gives a nonzero
  \<open>y\<close>-velocity exactly at the grid points inside the region.
\<close>

theorem forcing_at_first_step:
  assumes c: "has_shape coords n m" and z: "has_shape z n m" "uniform (0, 0) z"
    and ij: "i < n" "j < m"
  shows "max (2.0 - 0.5 * (0.1::real)) 0.0 = 1.95
    \<and> time_current initial_state + TIME_STEP_LENGTH = 0.1
    \<and> forcing_function 0.1 p =
        (if 0.4 < fst p \<and> fst p < 0.6 \<and> 0.1 < snd p \<and> snd p < 0.3 then (0, 1.95) else (0, 0))
    \<and> apply_forces z (forcing_function_vectorized 0.1 coords) z ! i ! j =
        (if 0.4 < fst (coords ! i ! j) \<and> fst (coords ! i ! j) < 0.6
            \<and> 0.1 < snd (coords ! i ! j) \<and> snd (coords ! i ! j) < 0.3
         then (0, 0.195) else (0, 0))
    \<and> (snd (apply_forces z (forcing_function_vectorized 0.1 coords) z ! i ! j) \<noteq> 0) =
        (0.4 < fst (coords ! i ! j) \<and> fst (coords ! i ! j) < 0.6
            \<and> 0.1 < snd (coords ! i ! j) \<and> snd (coords ! i ! j) < 0.3)"
proof -
  have f: "forcing_function 0.1 q =
        (if 0.4 < fst q \<and> fst q < 0.6 \<and> 0.1 < snd q \<and> snd q < 0.3 then (0, 1.95) else (0, 0))"
    for q
    by (simp add: forcing_function_def Let_def)
  have a: "apply_forces z (forcing_function_vectorized 0.1 coords) z ! i ! j =
        (if 0.4 < fst (coords ! i ! j) \<and> fst (coords ! i ! j) < 0.6
            \<and> 0.1 < snd (coords ! i ! j) \<and> snd (coords ! i ! j) < 0.3
         then (0, 0.195) else (0, 0))"
    using apply_forces_nth [OF z(1) forcing_function_vectorized_shape [OF c] z(1) ij]
      forcing_function_vectorized_nth [OF c ij] uniform_nth [OF z(2,1) ij]
    by (simp add: f TIME_STEP_LENGTH_def)
  show ?thesis
    unfolding a using f [of p]
    by (simp add: initial_state_def TIME_STEP_LENGTH_def)
qed

theorem forcing_at_first_step_witness:
  "has_shape [[(0.5, 0.2), (0.5, 0.5)], [(0.4, 0.2), (0.9, 0.2::real)]] 2 2
   \<and> uniform (0, 0) [[(0, 0), (0, 0)], [(0, 0), (0, 0::real)]]
   \<and> forcing_function 0.1 (0.5, 0.2) = (0, 1.95)
   \<and> apply_forces [[(0, 0), (0, 0)], [(0, 0), (0, 0)]]
        (forcing_function_vectorized 0.1 [[(0.5, 0.2), (0.5, 0.5)], [(0.4, 0.2), (0.9, 0.2)]])
        [[(0, 0), (0, 0)], [(0, 0), (0, 0)]] ! 0 ! 0 = (0, 0.195)"
proof -
  have h: "has_shape [[(0.5, 0.2), (0.5, 0.5)], [(0.4, 0.2), (0.9, 0.2::real)]] 2 2"
    "has_shape [[(0, 0), (0, 0)], [(0, 0), (0, 0::real)]] 2 2"
    "uniform (0, 0) [[(0, 0), (0, 0)], [(0, 0), (0, 0::real)]]"
    by (simp_all add: has_shape_def uniform_def)
  show ?thesis
    using h forcing_at_first_step [OF h, of 0 0 "(0.5, 0.2)"] by simp
qed

text \<open>
  In the script the external force is never zero: at the first step its \<open>y\<close>-component is
  \<open>- 0.1 * sin (0.02 * pi)\<close>, a negative number, at every grid point.
\<close>

lemma external_force_first_step:
  assumes c: "has_shape coords n m" and ij: "i < n" "j < m"
  shows "snd (external_force 0.1 coords ! i ! j) < 0"
proof -
  have "0 < sin (2 * pi * 0.1 / 10)"
    by (rule sin_gt_zero) (use pi_gt_zero in \<open>simp_all\<close>)
  moreover have "external_force 0.1 coords ! i ! j =
      (0.1 * sin (2 * pi * snd (coords ! i ! j)), - 0.1 * sin (2 * pi * 0.1 / 10))"
    unfolding external_force_def Let_def
    by (simp only: map_map_nth [OF map_map_shape [OF comp_shape(2) [OF c]] ij]
      map_map_nth [OF comp_shape(2) [OF c] ij] comp_nth(2) [OF c ij])
  ultimately show ?thesis by simp
qed

section \<open>Facts about the grid and the backtrace\<close>

lemma length_grid [simp]: "length grid_x = N_POINTS" "length grid_y = N_POINTS"
  by (simp_all add: grid_x_def grid_y_def linspace_def)

lemma grid_nth:
  "k < N_POINTS \<Longrightarrow> grid_x ! k = real k / 40"
  "k < N_POINTS \<Longrightarrow> grid_y ! k = real k / 40"
  by (simp_all add: grid_x_def grid_y_def linspace_def DOMAIN_SIZE_def N_POINTS_def)

lemma grid_eq: "grid_y = grid_x"
  by (simp add: grid_x_def grid_y_def)

lemma grid_ends:
  "hd grid_x = 0" "last grid_x = DOMAIN_SIZE" "hd grid_y = 0" "last grid_y = DOMAIN_SIZE"
proof -
  have n: "grid_x \<noteq> []" by (simp add: grid_x_def linspace_def N_POINTS_def)
  have "hd grid_x = grid_x ! 0" using n by (simp add: hd_conv_nth)
  then show h: "hd grid_x = 0" using grid_nth(1) [of 0] by (simp add: N_POINTS_def)
  have "last grid_x = grid_x ! (N_POINTS - 1)" using n by (simp add: last_conv_nth)
  then show l: "last grid_x = DOMAIN_SIZE"
    using grid_nth(1) [of "N_POINTS - 1"] by (simp add: N_POINTS_def DOMAIN_SIZE_def)
  show "hd grid_y = 0" "last grid_y = DOMAIN_SIZE" using h l by (simp_all add: grid_eq)
qed

lemma mesh_shape: "has_shape mesh_X N_POINTS N_POINTS" "has_shape mesh_Y N_POINTS N_POINTS"
  by (simp_all add: has_shape_iff mesh_X_def mesh_Y_def)

lemma mesh_nth:
  "i < N_POINTS \<Longrightarrow> j < N_POINTS \<Longrightarrow> mesh_X ! i ! j = real i / 40"
  "i < N_POINTS \<Longrightarrow> j < N_POINTS \<Longrightarrow> mesh_Y ! i ! j = real j / 40"
  by (simp_all add: mesh_X_def mesh_Y_def grid_nth)

lemma coordinates_shape: "has_shape coordinates N_POINTS N_POINTS"
  unfolding coordinates_def by (intro stack_shape mesh_shape)

lemma coordinates_nth:
  "i < N_POINTS \<Longrightarrow> j < N_POINTS \<Longrightarrow> coordinates ! i ! j = (real i / 40, real j / 40)"
  unfolding coordinates_def
  using stack_nth [OF mesh_shape, of i j] by (simp add: mesh_nth)

lemma map2_map2_shape:
  "has_shape a n m \<Longrightarrow> has_shape b n m \<Longrightarrow> has_shape (map2 (map2 h) a b) n m"
  by (auto simp: has_shape_iff)

lemma map2_map2_nth:
  "has_shape a n m \<Longrightarrow> has_shape b n m \<Longrightarrow> i < n \<Longrightarrow> j < m \<Longrightarrow>
   map2 (map2 h) a b ! i ! j = h (a ! i ! j) (b ! i ! j)"
  by (auto simp: has_shape_iff)

lemma exact_obstacle_mask_shape: "has_shape exact_obstacle_mask N_POINTS N_POINTS"
  unfolding exact_obstacle_mask_def by (intro map2_map2_shape mesh_shape)

lemma exact_obstacle_mask_nth:
  assumes "i < N_POINTS" and "j < N_POINTS"
  shows "exact_obstacle_mask ! i ! j \<longleftrightarrow> (real i / 40 - 0.5) ^ 2 + (real j / 40 - 0.5) ^ 2 < 0.1 ^ 2"
  unfolding exact_obstacle_mask_def
  using map2_map2_nth [OF mesh_shape assms] assms
  by (simp add: mesh_nth obstacle_center_def obstacle_radius_def)

lemma temperature_source_shape: "has_shape temperature_source N_POINTS N_POINTS"
  unfolding temperature_source_def by (intro map2_map2_shape mesh_shape)

lemma mask_assign_shape:
  "has_shape k n m \<Longrightarrow> has_shape a n m \<Longrightarrow> has_shape (mask_assign k c a) n m"
  unfolding mask_assign_def by (rule map2_map2_shape)

lemma mask_assign_nth:
  "has_shape k n m \<Longrightarrow> has_shape a n m \<Longrightarrow> i < n \<Longrightarrow> j < m \<Longrightarrow>
   mask_assign k c a ! i ! j = (if k ! i ! j then c else a ! i ! j)"
  unfolding mask_assign_def by (rule map2_map2_nth)

lemma clip_shape: "has_shape v n m \<Longrightarrow> has_shape (clip v lo hi) n m"
  unfolding clip_def by (rule map_map_shape)

lemma clip_nth:
  "has_shape v n m \<Longrightarrow> i < n \<Longrightarrow> j < m \<Longrightarrow>
   clip v lo hi ! i ! j = (min (max (fst (v ! i ! j)) lo) hi, min (max (snd (v ! i ! j)) lo) hi)"
  unfolding clip_def by (rule map_map_nth)

lemma clip_in_range:
  assumes "lo \<le> hi"
  shows "list_all (list_all (\<lambda>p. lo \<le> fst p \<and> fst p \<le> hi \<and> lo \<le> snd p \<and> snd p \<le> hi)) (clip v lo hi)"
  using assms by (auto simp: clip_def list_all_iff)

lemma backtraced_positions_in_domain:
  "list_all (list_all (\<lambda>p. 0 \<le> fst p \<and> fst p \<le> DOMAIN_SIZE \<and> 0 \<le> snd p \<and> snd p \<le> DOMAIN_SIZE))
     (backtraced_positions vf)"
  unfolding backtraced_positions_def
  using clip_in_range [of 0 DOMAIN_SIZE] by (simp add: DOMAIN_SIZE_def)

lemma backtraced_positions_shape:
  "has_shape vf N_POINTS N_POINTS \<Longrightarrow> has_shape (backtraced_positions vf) N_POINTS N_POINTS"
  unfolding backtraced_positions_def
  by (intro clip_shape vec_sub_shape vec_scale_shape coordinates_shape)

lemma interpn_not_out_of_bounds:
  "interpn (grid_x, grid_y) vals (backtraced_positions vf) \<noteq> Inl ValueError_out_of_bounds"
proof -
  have "list_all (list_all (\<lambda>p. hd grid_x \<le> fst p \<and> fst p \<le> last grid_x)) (backtraced_positions vf)"
    "list_all (list_all (\<lambda>p. hd grid_y \<le> snd p \<and> snd p \<le> last grid_y)) (backtraced_positions vf)"
    using backtraced_positions_in_domain [of vf]
    by (auto simp: grid_ends list_all_iff)
  then show ?thesis
    by (simp add: interpn_def Let_def)
qed

lemma interpn_ok:
  assumes "has_shape vals N_POINTS N_POINTS"
  shows "interpn (grid_x, grid_y) vals (backtraced_positions vf) =
           Inr (map (map (interp_linear grid_x grid_y vals)) (backtraced_positions vf))"
proof -
  have "list_all (list_all (\<lambda>p. hd grid_x \<le> fst p \<and> fst p \<le> last grid_x)) (backtraced_positions vf)"
    "list_all (list_all (\<lambda>p. hd grid_y \<le> snd p \<and> snd p \<le> last grid_y)) (backtraced_positions vf)"
    using backtraced_positions_in_domain [of vf]
    by (auto simp: grid_ends list_all_iff)
  then show ?thesis
    using assms by (simp add: interpn_def Let_def)
qed

section \<open>Advection stays inside the domain\<close>

lemma and_then_simps [simp]:
  "and_then (Inl e) k = Inl e"
  "and_then (Inr x) k = k x"
  by (simp_all add: and_then_def)

lemma and_then_eq_Inl:
  "and_then r k = Inl e \<longleftrightarrow> r = Inl e \<or> (\<exists>x. r = Inr x \<and> k x = Inl e)"
  by (cases r) simp_all

lemma and_then_eq_Inr:
  "and_then r k = Inr y \<longleftrightarrow> (\<exists>x. r = Inr x \<and> k x = Inr y)"
  by (cases r) simp_all

lemma advect_not_out_of_bounds: "advect field vf \<noteq> Inl ValueError_out_of_bounds"
  unfolding advect_def by (rule interpn_not_out_of_bounds)

lemma advect_vector_not_out_of_bounds: "advect_vector field vf \<noteq> Inl ValueError_out_of_bounds"
  unfolding advect_vector_def interpn_vector_def
  using interpn_not_out_of_bounds
  by (auto simp: and_then_eq_Inl)

lemma zero_field_shape:
  "has_shape (replicate n (replicate m c)) n m"
  by (simp add: has_shape_iff)

lemma zero_field_uniform: "uniform c (replicate n (replicate m c))"
  by (simp add: uniform_def list_all_iff)

text \<open>
  C7. Whatever the field and the transport velocity, every backtraced departure position
  lies in \<open>[0, DOMAIN_SIZE]\<close> in both coordinates; the interpolation grid spans exactly
  this interval on each axis; so neither \<open>advect\<close> on a scalar field nor on a vector field
  ever raises the interpolator's out-of-bounds error. For a velocity field on the grid
  there is one departure position per grid point.
\<close>

theorem departure_positions_in_domain:
  assumes "has_shape grid_velocity N_POINTS N_POINTS"
  shows "list_all (list_all (\<lambda>p. 0 \<le> fst p \<and> fst p \<le> DOMAIN_SIZE \<and> 0 \<le> snd p \<and> snd p \<le> DOMAIN_SIZE))
           (backtraced_positions vf)
    \<and> has_shape (backtraced_positions grid_velocity) N_POINTS N_POINTS
    \<and> hd grid_x = 0 \<and> last grid_x = DOMAIN_SIZE \<and> hd grid_y = 0 \<and> last grid_y = DOMAIN_SIZE
    \<and> advect field vf \<noteq> Inl ValueError_out_of_bounds
    \<and> advect_vector vfield vf \<noteq> Inl ValueError_out_of_bounds"
  using assms backtraced_positions_in_domain [of vf] backtraced_positions_shape grid_ends
    advect_not_out_of_bounds [of field vf] advect_vector_not_out_of_bounds [of vfield vf]
  by simp

theorem departure_positions_in_domain_witness:
  "has_shape (replicate N_POINTS (replicate N_POINTS (30, - 40::real))) N_POINTS N_POINTS
   \<and> has_shape (backtraced_positions (replicate N_POINTS (replicate N_POINTS (30, - 40))))
        N_POINTS N_POINTS
   \<and> list_all (list_all (\<lambda>p. 0 \<le> fst p \<and> fst p \<le> DOMAIN_SIZE \<and> 0 \<le> snd p \<and> snd p \<le> DOMAIN_SIZE))
        (backtraced_positions (replicate N_POINTS (replicate N_POINTS (30, - 40))))
   \<and> advect (replicate N_POINTS (replicate N_POINTS 1))
        (replicate N_POINTS (replicate N_POINTS (30, - 40))) \<noteq> Inl ValueError_out_of_bounds"
proof -
  have h: "has_shape (replicate N_POINTS (replicate N_POINTS (30, - 40::real))) N_POINTS N_POINTS"
    by (simp add: has_shape_def list_all_iff)
  show ?thesis
    using h departure_positions_in_domain [OF h,
        of "replicate N_POINTS (replicate N_POINTS (30, - 40))"
           "replicate N_POINTS (replicate N_POINTS 1)"]
    by simp
qed

section \<open>Advection at zero transport\<close>

lemma length_filter_less_upt: "length (filter (\<lambda>i. i < k) [0..<n]) = min k n"
  by (induction n) auto

lemma count_below_node:
  assumes "k < N_POINTS"
  shows "length (filter (\<lambda>g. g < real k / 40) grid_x) = k"
proof -
  have "filter (\<lambda>g. g < real k / 40) grid_x =
          map (\<lambda>i. real i * ((DOMAIN_SIZE - 0) / real (N_POINTS - 1)) + 0)
            (filter (\<lambda>i. i < k) [0..<N_POINTS])"
    by (simp add: grid_x_def linspace_def filter_map comp_def DOMAIN_SIZE_def N_POINTS_def)
  then show ?thesis
    using assms by (simp add: length_filter_less_upt)
qed

lemma find_indices_node:
  assumes "k < N_POINTS"
  shows "find_indices grid_x (real k / 40) = (k - 1, if k = 0 then 0 else 1)"
proof (cases "k = 0")
  case True
  then show ?thesis
    using count_below_node [OF assms] grid_nth(1) [of 0] grid_nth(1) [of 1]
    by (simp add: find_indices_def Let_def N_POINTS_def)
next
  case False
  then have k: "k - 1 < N_POINTS" "Suc (k - 1) = k" "min (k - 1) (N_POINTS - 2) = k - 1"
    using assms by (auto simp: N_POINTS_def)
  have "grid_x ! (k - 1) = real (k - 1) / 40" using grid_nth(1) [OF k(1)] .
  moreover have "real (k - 1) = real k - 1" using False by (simp add: of_nat_diff)
  ultimately show ?thesis
    using False count_below_node [OF assms] grid_nth(1) [OF assms] k
    by (simp add: find_indices_def Let_def diff_divide_distrib)
qed

lemma interp_linear_node:
  assumes i: "i < N_POINTS" and j: "j < N_POINTS"
  shows "interp_linear grid_x grid_y vals (real i / 40, real j / 40) = vals ! i ! j"
proof -
  have s: "i \<noteq> 0 \<Longrightarrow> Suc (i - 1) = i" "j \<noteq> 0 \<Longrightarrow> Suc (j - 1) = j" by auto
  show ?thesis
    using find_indices_node [OF i] find_indices_node [OF j] s
    by (auto simp: interp_linear_def grid_eq)
qed

lemma backtraced_positions_zero:
  assumes z: "has_shape z N_POINTS N_POINTS" "uniform (0, 0) z"
  shows "backtraced_positions z = coordinates"
proof (rule array_eqI [where n = N_POINTS and m = N_POINTS])
  fix i j assume ij: "i < N_POINTS" "j < N_POINTS"
  have s: "has_shape (vec_scale TIME_STEP_LENGTH z) N_POINTS N_POINTS"
    using z(1) by (rule vec_scale_shape)
  have d: "has_shape (vec_sub coordinates (vec_scale TIME_STEP_LENGTH z)) N_POINTS N_POINTS"
    using coordinates_shape s by (rule vec_sub_shape)
  have b: "real i / 40 \<le> 1" "real j / 40 \<le> 1" using ij by (simp_all add: N_POINTS_def)
  show "backtraced_positions z ! i ! j = coordinates ! i ! j"
    unfolding backtraced_positions_def
    using clip_nth [OF d ij] vec_sub_nth [OF coordinates_shape s ij] vec_scale_nth [OF z(1) ij]
      uniform_nth [OF z(2,1) ij] coordinates_nth [OF ij] b
    by (simp add: DOMAIN_SIZE_def)
qed (use z in \<open>simp_all add: backtraced_positions_shape coordinates_shape\<close>)

lemma advect_zero:
  assumes f: "has_shape f N_POINTS N_POINTS"
    and z: "has_shape z N_POINTS N_POINTS" "uniform (0, 0) z"
  shows "advect f z = Inr f"
proof -
  have "map (map (interp_linear grid_x grid_y f)) coordinates = f"
  proof (rule array_eqI [where n = N_POINTS and m = N_POINTS])
    fix i j assume ij: "i < N_POINTS" "j < N_POINTS"
    show "map (map (interp_linear grid_x grid_y f)) coordinates ! i ! j = f ! i ! j"
      by (simp only: map_map_nth [OF coordinates_shape ij, of "interp_linear grid_x grid_y f"]
          coordinates_nth [OF ij] interp_linear_node [OF ij])
  qed (use f in \<open>simp_all add: map_map_shape coordinates_shape\<close>)
  then show ?thesis
    unfolding advect_def
    using interpn_ok [OF f, of z] backtraced_positions_zero [OF z] by simp
qed

lemma stack_comp:
  assumes "has_shape v n m"
  shows "stack (comp0 v) (comp1 v) = v"
proof (rule array_eqI [where n = n and m = m])
  fix i j assume ij: "i < n" "j < m"
  show "stack (comp0 v) (comp1 v) ! i ! j = v ! i ! j"
    using stack_nth [OF comp_shape [OF assms] ij] comp_nth [OF assms ij] by simp
qed (use assms in \<open>simp_all add: stack_shape comp_shape\<close>)

lemma advect_vector_zero:
  assumes f: "has_shape f N_POINTS N_POINTS"
    and z: "has_shape z N_POINTS N_POINTS" "uniform (0, 0) z"
  shows "advect_vector f z = Inr f"
proof -
  have "interpn (grid_x, grid_y) (comp0 f) (backtraced_positions z) = Inr (comp0 f)"
    "interpn (grid_x, grid_y) (comp1 f) (backtraced_positions z) = Inr (comp1 f)"
    using advect_zero [OF comp_shape(1) [OF f] z] advect_zero [OF comp_shape(2) [OF f] z]
    by (simp_all add: advect_def)
  then show ?thesis
    by (simp add: advect_vector_def interpn_vector_def stack_comp [OF f])
qed

text \<open>
  C6. Advecting a scalar or a vector field on the grid with a transport velocity that is
  zero everywhere returns the field unchanged: the backtraced positions are the grid
  coordinates themselves (all of them in \<open>[0, DOMAIN_SIZE]\<close>, so the clamp changes
  nothing), and the interpolation returns the node value at every grid node.
\<close>

theorem advect_zero_velocity:
  assumes f: "has_shape f N_POINTS N_POINTS" and fv: "has_shape fv N_POINTS N_POINTS"
    and z: "has_shape z N_POINTS N_POINTS" "uniform (0, 0) z"
    and ij: "i < N_POINTS" "j < N_POINTS"
  shows "advect f z = Inr f \<and> advect_vector fv z = Inr fv
    \<and> backtraced_positions z = coordinates
    \<and> coordinates ! i ! j = (grid_x ! i, grid_y ! j)
    \<and> 0 \<le> grid_x ! i \<and> grid_x ! i \<le> DOMAIN_SIZE \<and> 0 \<le> grid_y ! j \<and> grid_y ! j \<le> DOMAIN_SIZE
    \<and> interp_linear grid_x grid_y f (grid_x ! i, grid_y ! j) = f ! i ! j"
proof -
  note g = grid_nth(1) [OF ij(1)] grid_nth(2) [OF ij(2)]
  have b: "0 \<le> real i / 40" "real i / 40 \<le> DOMAIN_SIZE" "0 \<le> real j / 40" "real j / 40 \<le> DOMAIN_SIZE"
    using ij by (simp_all add: DOMAIN_SIZE_def N_POINTS_def)
  show ?thesis
    unfolding g
    using advect_zero [OF f z] advect_vector_zero [OF fv z] backtraced_positions_zero [OF z]
      coordinates_nth [OF ij] interp_linear_node [OF ij, of f] b
    by simp
qed

theorem advect_zero_velocity_witness:
  "has_shape (replicate N_POINTS (replicate N_POINTS (3::real))) N_POINTS N_POINTS
   \<and> has_shape (replicate N_POINTS (replicate N_POINTS (0, 0::real))) N_POINTS N_POINTS
   \<and> uniform (0, 0) (replicate N_POINTS (replicate N_POINTS (0, 0::real)))
   \<and> advect (replicate N_POINTS (replicate N_POINTS 3))
        (replicate N_POINTS (replicate N_POINTS (0, 0)))
      = Inr (replicate N_POINTS (replicate N_POINTS 3))
   \<and> advect_vector (replicate N_POINTS (replicate N_POINTS (1, 2)))
        (replicate N_POINTS (replicate N_POINTS (0, 0)))
      = Inr (replicate N_POINTS (replicate N_POINTS (1, 2)))"
proof -
  have h: "has_shape (replicate N_POINTS (replicate N_POINTS (3::real))) N_POINTS N_POINTS"
    "has_shape (replicate N_POINTS (replicate N_POINTS (1, 2::real))) N_POINTS N_POINTS"
    "has_shape (replicate N_POINTS (replicate N_POINTS (0, 0::real))) N_POINTS N_POINTS"
    "uniform (0, 0) (replicate N_POINTS (replicate N_POINTS (0, 0::real)))"
    by (simp_all add: has_shape_def uniform_def list_all_iff)
  have b: "(0::nat) < N_POINTS" by (simp add: N_POINTS_def)
  show ?thesis
    using h advect_zero_velocity [OF h b b] by simp
qed

section \<open>Facts about the time loop\<close>

lemma reshape_scalar_shape: "reshape_scalar flat = Inr a \<Longrightarrow> has_shape a N_POINTS N_POINTS"
  by (auto simp: reshape_scalar_def has_shape_iff split: if_splits)

lemma reshape_vector_shape: "reshape_vector flat = Inr a \<Longrightarrow> has_shape a N_POINTS N_POINTS"
  by (auto simp: reshape_vector_def has_shape_iff split: if_splits)

lemma reshape_scalar_ok: "length flat = scalar_dof \<Longrightarrow> \<exists>a. reshape_scalar flat = Inr a"
  by (simp add: reshape_scalar_def)

lemma reshape_vector_ok: "length flat = vector_dof \<Longrightarrow> \<exists>a. reshape_vector flat = Inr a"
  by (simp add: reshape_vector_def)

lemma length_concat_rows:
  "list_all (\<lambda>r. length r = m) a \<Longrightarrow> length (concat a) = length a * m"
  by (induction a) auto

lemma length_flatten_scalar:
  "has_shape a N_POINTS N_POINTS \<Longrightarrow> length (flatten_scalar a) = scalar_dof"
  using length_concat_rows [of N_POINTS a]
  by (simp add: has_shape_def flatten_scalar_def scalar_dof_def power2_eq_square)

lemma length_pairs: "length (concat (map (\<lambda>p. [fst p, snd p]) row)) = length row * 2"
  by (induction row) auto

lemma length_flatten_vector:
  assumes "has_shape a N_POINTS N_POINTS"
  shows "length (flatten_vector a) = vector_dof"
proof -
  have "list_all (\<lambda>r. length r = N_POINTS * 2)
          (map (\<lambda>row. concat (map (\<lambda>p. [fst p, snd p]) row)) a)"
    using assms by (auto simp: has_shape_def list_all_iff length_pairs)
  from length_concat_rows [OF this] show ?thesis
    using assms by (simp add: has_shape_def flatten_vector_def vector_dof_def power2_eq_square)
qed

lemma external_force_shape: "has_shape c n m \<Longrightarrow> has_shape (external_force t c) n m"
  unfolding external_force_def Let_def
  by (intro map_map_shape comp_shape)

lemma advect_ok:
  assumes "has_shape f N_POINTS N_POINTS" and "has_shape vf N_POINTS N_POINTS"
  shows "\<exists>r. advect f vf = Inr r \<and> has_shape r N_POINTS N_POINTS"
  unfolding advect_def
  using interpn_ok [OF assms(1), of vf] backtraced_positions_shape [OF assms(2)]
  by (simp add: map_map_shape)

lemma advect_vector_ok:
  assumes f: "has_shape f N_POINTS N_POINTS" and vf: "has_shape vf N_POINTS N_POINTS"
  shows "\<exists>r. advect_vector f vf = Inr r \<and> has_shape r N_POINTS N_POINTS"
proof -
  from advect_ok [OF comp_shape(1) [OF f] vf] obtain a
    where a: "interpn (grid_x, grid_y) (comp0 f) (backtraced_positions vf) = Inr a"
      "has_shape a N_POINTS N_POINTS"
    by (auto simp: advect_def)
  from advect_ok [OF comp_shape(2) [OF f] vf] obtain b
    where b: "interpn (grid_x, grid_y) (comp1 f) (backtraced_positions vf) = Inr b"
      "has_shape b N_POINTS N_POINTS"
    by (auto simp: advect_def)
  show ?thesis
    using a b by (simp add: advect_vector_def interpn_vector_def stack_shape)
qed

lemma temperature_step_shape:
  assumes "temperature_step cg t v src = Inr tn" and "has_shape src N_POINTS N_POINTS"
  shows "has_shape tn N_POINTS N_POINTS"
proof -
  from assms(1) obtain solved td where
    td: "reshape_scalar solved = Inr td" and
    tn: "tn = arr_add td (arr_scale TIME_STEP_LENGTH src)"
    by (auto simp: temperature_step_def and_then_eq_Inr)
  show ?thesis
    unfolding tn
    by (intro arr_add_shape arr_scale_shape reshape_scalar_shape [OF td] assms(2))
qed

lemma main_step_result:
  assumes "main_step cg msk s = Inr s'"
  shows "\<exists>vd p tn. has_shape vd N_POINTS N_POINTS \<and> has_shape p N_POINTS N_POINTS
           \<and> has_shape tn N_POINTS N_POINTS
           \<and> velocities_prev s' = mask_assign msk (0, 0) (vec_sub vd (gradient p))
           \<and> temperature_prev s' = mask_assign msk 0.5 tn
           \<and> time_current s' = time_current s + TIME_STEP_LENGTH"
proof -
  from assms obtain solved_v vd solved_p p tn where
    vd: "reshape_vector solved_v = Inr vd" and
    p: "reshape_scalar solved_p = Inr p" and
    tn: "temperature_step cg (temperature_prev s)
           (mask_assign msk (0, 0) (vec_sub vd (gradient p))) temperature_source = Inr tn" and
    s': "s' = \<lparr> velocities_prev = mask_assign msk (0, 0) (vec_sub vd (gradient p)),
                temperature_prev = mask_assign msk 0.5 tn,
                time_current = time_current s + TIME_STEP_LENGTH \<rparr>"
    by (auto simp: main_step_def Let_def and_then_eq_Inr)
  show ?thesis
    using reshape_vector_shape [OF vd] reshape_scalar_shape [OF p]
      temperature_step_shape [OF tn temperature_source_shape] s'
    by auto
qed

lemma main_step_invariant:
  assumes "main_step cg msk s = Inr s'" and m: "has_shape msk N_POINTS N_POINTS"
  shows "well_shaped s'"
    and "i < N_POINTS \<Longrightarrow> j < N_POINTS \<Longrightarrow> msk ! i ! j \<Longrightarrow>
         velocities_prev s' ! i ! j = (0, 0) \<and> temperature_prev s' ! i ! j = 0.5"
proof -
  from main_step_result [OF assms(1)] obtain vd p tn where
    sh: "has_shape vd N_POINTS N_POINTS" "has_shape p N_POINTS N_POINTS"
      "has_shape tn N_POINTS N_POINTS" and
    v: "velocities_prev s' = mask_assign msk (0, 0) (vec_sub vd (gradient p))" and
    t: "temperature_prev s' = mask_assign msk 0.5 tn"
    by blast
  have vp: "has_shape (vec_sub vd (gradient p)) N_POINTS N_POINTS"
    using sh by (intro vec_sub_shape gradient_shape)
  show "well_shaped s'"
    unfolding well_shaped_def v t
    using mask_assign_shape [OF m vp] mask_assign_shape [OF m sh(3)]
    by simp
  show "velocities_prev s' ! i ! j = (0, 0) \<and> temperature_prev s' ! i ! j = 0.5"
    if "i < N_POINTS" "j < N_POINTS" "msk ! i ! j"
    unfolding v t
    using mask_assign_nth [OF m vp that(1,2)]
      mask_assign_nth [OF m sh(3) that(1,2)] that(3)
    by simp
qed

lemma time_loop_last:
  "time_loop cg msk (Suc k) s = Inr s' \<Longrightarrow> \<exists>t. main_step cg msk t = Inr s'"
proof (induction k arbitrary: s)
  case 0
  then show ?case by (auto simp: and_then_eq_Inr)
next
  case (Suc k)
  from Suc.prems obtain s1 where "main_step cg msk s = Inr s1" "time_loop cg msk (Suc k) s1 = Inr s'"
    by (auto simp: and_then_eq_Inr)
  then show ?case using Suc.IH by blast
qed

lemma cg_solution_ok:
  assumes "\<forall>A b m. \<exists>x info. cg A b m = Inr (x, info) \<and> length x = length b"
  shows "\<exists>x. cg_solution cg A b m = Inr x \<and> length x = length b"
proof -
  from assms obtain x info where "cg A b m = Inr (x, info)" "length x = length b" by blast
  then show ?thesis by (simp add: cg_solution_def)
qed

lemma temperature_step_total:
  assumes cg: "\<forall>A b m. \<exists>x info. cg A b m = Inr (x, info) \<and> length x = length b"
    and t: "has_shape t N_POINTS N_POINTS" and v: "has_shape v N_POINTS N_POINTS"
  shows "\<exists>tn. temperature_step cg t v src = Inr tn"
proof -
  from advect_ok [OF t v] obtain ta where
    ta: "advect t v = Inr ta" "has_shape ta N_POINTS N_POINTS" by blast
  from cg_solution_ok [OF cg] obtain x where
    x: "cg_solution cg temperature_diffusion_operator (flatten_scalar ta) None = Inr x"
      "length x = length (flatten_scalar ta)" by blast
  from reshape_scalar_ok [of x] x(2) length_flatten_scalar [OF ta(2)] obtain td where
    td: "reshape_scalar x = Inr td" by auto
  show ?thesis
    by (simp add: temperature_step_def ta(1) x(1) td)
qed

lemma main_step_total:
  assumes cg: "\<forall>A b m. \<exists>x info. cg A b m = Inr (x, info) \<and> length x = length b"
    and s: "well_shaped s" and m: "has_shape msk N_POINTS N_POINTS"
  shows "\<exists>s'. main_step cg msk s = Inr s'"
proof -
  let ?time = "time_current s + TIME_STEP_LENGTH"
  let ?vfa = "apply_forces (velocities_prev s) (forcing_function_vectorized ?time coordinates)
                (external_force ?time coordinates)"
  have vfa: "has_shape ?vfa N_POINTS N_POINTS"
    using s unfolding well_shaped_def
    by (intro apply_forces_shape forcing_function_vectorized_shape external_force_shape
        coordinates_shape) simp
  from advect_vector_ok [OF vfa vfa] obtain va where
    va: "advect_vector ?vfa ?vfa = Inr va" "has_shape va N_POINTS N_POINTS" by blast
  from cg_solution_ok [OF cg] obtain x where
    x: "cg_solution cg diffusion_operator_turbulent (flatten_vector va) MAX_ITER_CG = Inr x"
      "length x = length (flatten_vector va)" by blast
  from reshape_vector_ok [of x] x(2) length_flatten_vector [OF va(2)] obtain vd where
    vd: "reshape_vector x = Inr vd" by auto
  note vds = reshape_vector_shape [OF vd]
  from cg_solution_ok [OF cg] obtain y where
    y: "cg_solution cg poisson_operator (flatten_scalar (divergence vd)) MAX_ITER_CG = Inr y"
      "length y = length (flatten_scalar (divergence vd))" by blast
  from reshape_scalar_ok [of y] y(2) length_flatten_scalar [OF divergence_shape [OF vds]]
  obtain p where p: "reshape_scalar y = Inr p" by auto
  note ps = reshape_scalar_shape [OF p]
  let ?vp = "mask_assign msk (0, 0) (vec_sub vd (gradient p))"
  have vp: "has_shape ?vp N_POINTS N_POINTS"
    using vds ps m by (intro mask_assign_shape vec_sub_shape gradient_shape)
  from temperature_step_total [OF cg _ vp, of "temperature_prev s" temperature_source] s
  obtain tn where tn: "temperature_step cg (temperature_prev s) ?vp temperature_source = Inr tn"
    by (auto simp: well_shaped_def)
  show ?thesis
    by (simp add: main_step_def Let_def va(1) x(1) vd y(1) p tn)
qed

lemma time_loop_total:
  assumes cg: "\<forall>A b m. \<exists>x info. cg A b m = Inr (x, info) \<and> length x = length b"
    and s: "well_shaped s" and m: "has_shape msk N_POINTS N_POINTS"
  shows "\<exists>s'. time_loop cg msk k s = Inr s' \<and> well_shaped s'"
  using s
proof (induction k arbitrary: s)
  case 0
  then show ?case by simp
next
  case (Suc k)
  from main_step_total [OF cg Suc.prems m] obtain s1 where s1: "main_step cg msk s = Inr s1" by blast
  from Suc.IH [OF main_step_invariant(1) [OF s1 m]] show ?case
    by (simp add: s1)
qed

lemma initial_state_well_shaped: "well_shaped initial_state"
  by (simp add: well_shaped_def initial_state_def zero_field_shape)

lemma stub_solver_returns:
  "\<forall>A b m. \<exists>x i. stub_solver info A b m = Inr (x, i) \<and> length x = length b"
  by (simp add: stub_solver_def)

lemma obstacle_center_node: "exact_obstacle_mask ! 20 ! 20"
  using exact_obstacle_mask_nth [of 20 20] by (simp add: N_POINTS_def)

text \<open>
  Node \<open>(16, 20)\<close> lies on the circle: in exact arithmetic the comparison is false there.
\<close>

lemma node_on_circle: "\<not> exact_obstacle_mask ! 16 ! 20"
  using exact_obstacle_mask_nth [of 16 20] by (simp add: N_POINTS_def power2_eq_square)

lemma cg_solution_status_irrelevant:
  assumes "\<forall>A b m. map_sum id fst (cg1 A b m) = map_sum id fst (cg2 A b m)"
  shows "cg_solution cg1 = cg_solution cg2"
proof (intro ext)
  fix A b m
  from assms have "map_sum id fst (cg1 A b m) = map_sum id fst (cg2 A b m)" by blast
  then show "cg_solution cg1 A b m = cg_solution cg2 A b m"
    by (cases "cg1 A b m"; cases "cg2 A b m") (simp_all add: cg_solution_def)
qed

lemma temperature_step_status_irrelevant:
  assumes "\<forall>A b m. map_sum id fst (cg1 A b m) = map_sum id fst (cg2 A b m)"
  shows "temperature_step cg1 t v src = temperature_step cg2 t v src"
  unfolding temperature_step_def cg_solution_status_irrelevant [OF assms] ..

lemma main_step_status_irrelevant:
  assumes "\<forall>A b m. map_sum id fst (cg1 A b m) = map_sum id fst (cg2 A b m)"
  shows "main_step cg1 msk s = main_step cg2 msk s"
  unfolding main_step_def cg_solution_status_irrelevant [OF assms]
    temperature_step_status_irrelevant [OF assms] ..

lemma time_loop_status_irrelevant:
  assumes "\<forall>A b m. map_sum id fst (cg1 A b m) = map_sum id fst (cg2 A b m)"
  shows "time_loop cg1 msk k s = time_loop cg2 msk k s"
proof (induction k arbitrary: s)
  case 0
  show ?case by simp
next
  case (Suc k)
  show ?case
    using main_step_status_irrelevant [OF assms, of msk s] Suc.IH
    by (cases "main_step cg2 msk s") simp_all
qed

text \<open>
  C1. After every pass through the loop body (one or more steps, from any state), every
  grid point inside the obstacle mask has velocity \<open>(0, 0)\<close> and temperature \<open>0.5\<close>,
  whichever grid points the mask holds.
\<close>

theorem obstacle_invariant:
  assumes "time_loop cg obstacle_mask k s = Inr s'" and "1 \<le> k"
    and "has_shape obstacle_mask N_POINTS N_POINTS"
    and "i < N_POINTS" and "j < N_POINTS" and "obstacle_mask ! i ! j"
  shows "velocities_prev s' ! i ! j = (0, 0) \<and> temperature_prev s' ! i ! j = 0.5"
proof -
  from assms(2) obtain k' where "k = Suc k'" by (cases k) auto
  with assms(1) time_loop_last obtain t where "main_step cg obstacle_mask t = Inr s'" by blast
  from main_step_invariant(2) [OF this assms(3-6)] show ?thesis .
qed

theorem obstacle_invariant_witness:
  "time_loop (stub_solver 0) (exact_obstacle_mask[16 := (exact_obstacle_mask ! 16)[20 := True]])
       1 initial_state
     = Inr (projr (time_loop (stub_solver 0)
              (exact_obstacle_mask[16 := (exact_obstacle_mask ! 16)[20 := True]]) 1 initial_state))
   \<and> has_shape (exact_obstacle_mask[16 := (exact_obstacle_mask ! 16)[20 := True]]) N_POINTS N_POINTS
   \<and> (16::nat) < N_POINTS \<and> (20::nat) < N_POINTS
   \<and> exact_obstacle_mask[16 := (exact_obstacle_mask ! 16)[20 := True]] ! 16 ! 20
   \<and> velocities_prev (projr (time_loop (stub_solver 0)
        (exact_obstacle_mask[16 := (exact_obstacle_mask ! 16)[20 := True]]) 1 initial_state))
        ! 16 ! 20 = (0, 0)
   \<and> temperature_prev (projr (time_loop (stub_solver 0)
        (exact_obstacle_mask[16 := (exact_obstacle_mask ! 16)[20 := True]]) 1 initial_state))
        ! 16 ! 20 = 0.5"
proof -
  let ?m = "exact_obstacle_mask[16 := (exact_obstacle_mask ! 16)[20 := True]]"
  have n: "(16::nat) < N_POINTS" "(20::nat) < N_POINTS" by (simp_all add: N_POINTS_def)
  have m: "has_shape ?m N_POINTS N_POINTS"
  proof -
    have "length (?m ! i) = N_POINTS" if "i < N_POINTS" for i
      using exact_obstacle_mask_shape that n by (cases "i = 16") (simp_all add: has_shape_iff)
    then show ?thesis
      using exact_obstacle_mask_shape by (simp add: has_shape_iff)
  qed
  have t: "?m ! 16 ! 20"
    using exact_obstacle_mask_shape n by (simp add: has_shape_iff)
  from time_loop_total [OF stub_solver_returns initial_state_well_shaped m, of 0 1]
  have r: "time_loop (stub_solver 0) ?m 1 initial_state
             = Inr (projr (time_loop (stub_solver 0) ?m 1 initial_state))"
    by auto
  show ?thesis
    using r n m t obstacle_invariant [OF r _ m n t]
    by simp
qed

text \<open>
  C2, as stated, fails: with a solver that reports non-convergence (\<open>info = 1\<close>) at every
  solve, the whole run still completes without an error, in the very state it reaches
  when the solver reports convergence.
\<close>

theorem nonconvergence_not_surfaced:
  "stub_solver 1 poisson_operator [] MAX_ITER_CG = Inr ([], 1)
   \<and> \<not> isl (main (stub_solver 1) exact_obstacle_mask)
   \<and> main (stub_solver 1) exact_obstacle_mask = main (stub_solver 0) exact_obstacle_mask"
proof -
  from time_loop_total [OF stub_solver_returns initial_state_well_shaped
      exact_obstacle_mask_shape, of 1 N_TIME_STEPS]
  have "\<not> isl (main (stub_solver 1) exact_obstacle_mask)" by (auto simp: main_def)
  moreover have "main (stub_solver 1) exact_obstacle_mask = main (stub_solver 0) exact_obstacle_mask"
    unfolding main_def
    by (rule time_loop_status_irrelevant) (simp add: stub_solver_def)
  ultimately show ?thesis by (simp add: stub_solver_def)
qed

text \<open>
  C2, amended. Every conjugate-gradient solve of the pipeline keeps the iterate and drops
  the solver's status: two solvers that return the same iterates (or raise the same
  errors) and differ only in the status they report give the same result for every
  solve, every temperature step, every pass through the loop and the whole run.
\<close>

theorem solver_status_discarded:
  assumes "\<forall>A b m. map_sum id fst (cg1 A b m) = map_sum id fst (cg2 A b m)"
  shows "cg_solution cg1 A b m = cg_solution cg2 A b m
    \<and> temperature_step cg1 t v src = temperature_step cg2 t v src
    \<and> main_step cg1 obstacle_mask s = main_step cg2 obstacle_mask s
    \<and> time_loop cg1 obstacle_mask k s = time_loop cg2 obstacle_mask k s
    \<and> main cg1 obstacle_mask = main cg2 obstacle_mask"
  using cg_solution_status_irrelevant [OF assms] temperature_step_status_irrelevant [OF assms]
    main_step_status_irrelevant [OF assms] time_loop_status_irrelevant [OF assms]
  by (simp add: main_def)

theorem solver_status_discarded_witness:
  "(\<forall>A b m. map_sum id fst (stub_solver 1 A b m) = map_sum id fst (stub_solver 0 A b m))
   \<and> main_step (stub_solver 1) exact_obstacle_mask initial_state
       = main_step (stub_solver 0) exact_obstacle_mask initial_state
   \<and> main (stub_solver 1) exact_obstacle_mask = main (stub_solver 0) exact_obstacle_mask"
proof -
  have h: "\<forall>A b m. map_sum id fst (stub_solver 1 A b m) = map_sum id fst (stub_solver 0 A b m)"
    by (simp add: stub_solver_def)
  show ?thesis
    using h solver_status_discarded [OF h, where obstacle_mask = exact_obstacle_mask
        and s = initial_state]
    by simp
qed

end
